theory Spec2Isabelle
  imports Main "HOL-Library.Multiset"
begin

section \<open>JavaScript values and their JSON text\<close>

text \<open>
  The transport layer of \<^verbatim>\<open>pokemonData.tsx\<close> builds its cache keys with
  \<^verbatim>\<open>JSON.stringify({ url, params })\<close>. The model therefore needs the part of
  JavaScript that this call exercises: plain values, objects whose properties
  keep their creation order, and the text that \<^verbatim>\<open>JSON.stringify\<close> produces.

  Numbers are restricted to integers (every number the program puts into a
  parameter object is a page limit or an offset). An object is the list of its
  properties in creation order; a well-formed object has pairwise distinct keys.
\<close>

datatype js_value =
    JUndefined
  | JNull
  | JBool bool
  | JNum int
  | JStr string
  | JArr "js_value list"
  | JObj "(string \<times> js_value) list"

type_synonym params = "(string \<times> js_value) list"

subsection \<open>Decimal numerals\<close>

definition digit_char :: "nat \<Rightarrow> char" where
  "digit_char n = ''0123456789'' ! n"

fun digits_of_nat :: "nat \<Rightarrow> string" where
  "digits_of_nat n =
     (if n < 10 then [digit_char n]
      else digits_of_nat (n div 10) @ [digit_char (n mod 10)])"

declare digits_of_nat.simps [simp del]

definition string_of_int :: "int \<Rightarrow> string" where
  "string_of_int i =
     (if i < 0 then CHR ''-'' # digits_of_nat (nat (- i)) else digits_of_nat (nat i))"

definition is_digit :: "char \<Rightarrow> bool" where
  "is_digit c = (c \<in> set ''0123456789'')"

definition digit_val :: "char \<Rightarrow> nat" where
  "digit_val c = of_char c - 48"

definition nat_of_digits :: "string \<Rightarrow> nat" where
  "nat_of_digits k = foldl (\<lambda>a c. 10 * a + digit_val c) 0 k"

subsection \<open>Property enumeration order\<close>

text \<open>
  \<^verbatim>\<open>JSON.stringify\<close> visits the own properties of an object in the order of
  the language's own-property-keys operation: first the keys that are array
  indices (canonical decimal numerals below \<open>2^32 - 1\<close>) in ascending numeric
  order, then every other string key in creation order.
\<close>

definition is_array_index :: "string \<Rightarrow> bool" where
  "is_array_index k =
     (k \<noteq> [] \<and> list_all is_digit k \<and> (k = ''0'' \<or> hd k \<noteq> CHR ''0'')
      \<and> nat_of_digits k < 4294967295)"

definition own_entries :: "(string \<times> 'a) list \<Rightarrow> (string \<times> 'a) list" where
  "own_entries ps =
     sort_key (\<lambda>p. nat_of_digits (fst p)) (filter (\<lambda>p. is_array_index (fst p)) ps)
     @ filter (\<lambda>p. \<not> is_array_index (fst p)) ps"

subsection \<open>JSON.stringify\<close>

definition hex_digit :: "nat \<Rightarrow> char" where
  "hex_digit n = ''0123456789abcdef'' ! n"

text \<open>The escapes of the standard's string quoting: the quote, the backslash,
  the five named control characters, and \<^verbatim>\<open>\u00xx\<close> for the other code
  units below \<open>0x20\<close>.\<close>

definition json_escape :: "char \<Rightarrow> string" where
  "json_escape c =
     (if c = CHR 0x22 then [CHR 0x5C, CHR 0x22]
      else if c = CHR 0x5C then [CHR 0x5C, CHR 0x5C]
      else if c = CHR 0x08 then [CHR 0x5C, CHR ''b'']
      else if c = CHR 0x0C then [CHR 0x5C, CHR ''f'']
      else if c = CHR 0x0A then [CHR 0x5C, CHR ''n'']
      else if c = CHR 0x0D then [CHR 0x5C, CHR ''r'']
      else if c = CHR 0x09 then [CHR 0x5C, CHR ''t'']
      else if (of_char c :: nat) < 32
        then [CHR 0x5C, CHR ''u'', CHR ''0'', CHR ''0'',
              hex_digit (of_char c div 16), hex_digit (of_char c mod 16)]
      else [c])"

definition json_quote :: "string \<Rightarrow> string" where
  "json_quote s = CHR 0x22 # concat (map json_escape s) @ [CHR 0x22]"

fun join_comma :: "string list \<Rightarrow> string" where
  "join_comma [] = []"
| "join_comma [x] = x"
| "join_comma (x # y # zs) = x @ '','' @ join_comma (y # zs)"

lemma set_own_entries: "set (own_entries ps) = set ps"
  by (auto simp: own_entries_def)

lemma size_snd_lt: "(k, v) \<in> set ps \<Longrightarrow> size v < Suc (size_list (size_prod (\<lambda>_. 0) size) ps)"
  by (induction ps) auto

text \<open>
  \<open>json_stringify\<close> is the text of a value that is not \<^verbatim>\<open>undefined\<close>. A property
  whose value is \<^verbatim>\<open>undefined\<close> is left out of its object; an \<^verbatim>\<open>undefined\<close>
  array element is written \<^verbatim>\<open>null\<close>.
\<close>

function json_stringify :: "js_value \<Rightarrow> string" where
  "json_stringify JUndefined = ''null''"
| "json_stringify JNull = ''null''"
| "json_stringify (JBool b) = (if b then ''true'' else ''false'')"
| "json_stringify (JNum i) = string_of_int i"
| "json_stringify (JStr s) = json_quote s"
| "json_stringify (JArr vs) = ''['' @ join_comma (map json_stringify vs) @ '']''"
| "json_stringify (JObj ps) =
     ''{'' @ join_comma
        (map (\<lambda>p. json_quote (fst p) @ '':'' @ json_stringify (snd p))
           (filter (\<lambda>p. snd p \<noteq> JUndefined) (own_entries ps)))
      @ ''}''"
  by pat_completeness auto

termination
proof (relation "measure size")
  show "wf (measure size)" by simp
next
  fix vs :: "js_value list" and x
  assume "x \<in> set vs"
  then show "(x, JArr vs) \<in> measure size"
    by (induction vs) auto
next
  fix ps :: "(string \<times> js_value) list" and x
  assume "x \<in> set (filter (\<lambda>p. snd p \<noteq> JUndefined) (own_entries ps))"
  then have "x \<in> set ps" by (simp add: set_own_entries)
  then show "(snd x, JObj ps) \<in> measure size"
    using size_snd_lt [of "fst x" "snd x" ps] by simp
qed

subsection \<open>The cache key\<close>

text \<open>
  \<^verbatim>\<open>const cacheKey = (url, params?) => JSON.stringify({ url, params })\<close>.
  The object literal creates \<open>url\<close> before \<open>params\<close>; an omitted \<open>params\<close> is
  the value \<^verbatim>\<open>undefined\<close>.
\<close>

definition cacheKey :: "string \<Rightarrow> params option \<Rightarrow> string" where
  "cacheKey url ps =
     json_stringify
       (JObj [(''url'', JStr url),
              (''params'', case ps of None \<Rightarrow> JUndefined | Some p \<Rightarrow> JObj p)])"

section \<open>The catalog's records and the two view shapes\<close>

text \<open>
  One record per interface of \<^verbatim>\<open>pokemonData.tsx\<close>. A field that may be
  \<^verbatim>\<open>null\<close> or missing is an \<open>option\<close>. Field names carry a short prefix where
  the source reuses one name (\<open>id\<close>, \<open>name\<close>, \<open>slot\<close>, \<open>front_default\<close>) in
  several interfaces. The move slots of a catalog item are read by no function
  of the module and are left out.
\<close>

record NamedAPIResource =
  res_name :: string
  res_url :: string

record SpriteFront =
  front_default :: "string option"

record SpriteHome =
  home_front_default :: "string option"
  home_front_shiny :: "string option"

record PokemonSpritesOther =
  dream_world :: "SpriteFront option"
  home :: "SpriteHome option"
  official_artwork :: "SpriteFront option"

record PokemonSprites =
  sprites_front_default :: "string option"
  sprites_front_shiny :: "string option"
  other :: "PokemonSpritesOther option"

record PokemonTypeSlot =
  ts_slot :: int
  ts_type :: NamedAPIResource

record PokemonAbilitySlot =
  ab_ability :: NamedAPIResource
  ab_is_hidden :: bool
  ab_slot :: int

record PokemonStatSlot =
  base_stat :: int
  effort :: int
  stat :: NamedAPIResource

record Pokemon =
  pk_id :: int
  pk_name :: string
  pk_height :: int
  pk_weight :: int
  pk_order :: int
  pk_base_experience :: int
  pk_sprites :: PokemonSprites
  pk_types :: "PokemonTypeSlot list"
  pk_abilities :: "PokemonAbilitySlot list"
  pk_stats :: "PokemonStatSlot list"
  pk_species :: NamedAPIResource

record PokemonSpeciesFlavorText =
  flavor_text :: string
  ft_language :: NamedAPIResource
  ft_version :: NamedAPIResource

record PokemonSpeciesGenus =
  genus :: string
  gn_language :: NamedAPIResource

record PokemonSpecies =
  sp_id :: int
  sp_name :: string
  sp_color :: "NamedAPIResource option"
  sp_habitat :: "NamedAPIResource option"
  sp_genera :: "PokemonSpeciesGenus list option"
  sp_flavor_text_entries :: "PokemonSpeciesFlavorText list"
  sp_is_legendary :: bool
  sp_is_mythical :: bool
  sp_evolution_chain :: "string option"

record PokemonListResponse =
  plr_count :: int
  plr_next :: "string option"
  plr_previous :: "string option"
  plr_results :: "NamedAPIResource list"

record PokemonSummary =
  sum_id :: int
  sum_name :: string
  sum_sprite :: "string option"
  sum_types :: "string list"

record PokemonDetail = PokemonSummary +
  det_height :: int
  det_weight :: int
  det_baseExperience :: int
  det_abilities :: "(string \<times> bool) list"
  det_stats :: "(string \<times> int) list"
  det_flavorText :: "string option"
  det_habitat :: "string option"
  det_genus :: "string option"
  det_isLegendary :: bool
  det_isMythical :: bool

section \<open>Domain mapper\<close>

text \<open>\<open>nullish a b\<close> is \<^verbatim>\<open>a ?? b\<close>; optional chaining \<^verbatim>\<open>a?.f\<close> is
  \<open>Option.bind a f\<close> (or \<open>map_option f a\<close> when \<open>f\<close> cannot be absent).\<close>

definition nullish :: "'a option \<Rightarrow> 'a option \<Rightarrow> 'a option" where
  "nullish a b = (case a of None \<Rightarrow> b | Some x \<Rightarrow> Some x)"

definition extractSprite :: "Pokemon \<Rightarrow> string option" where
  "extractSprite pokemon =
     nullish (Option.bind (Option.bind (other (pk_sprites pokemon)) official_artwork) front_default)
    (nullish (Option.bind (Option.bind (other (pk_sprites pokemon)) home) home_front_default)
    (nullish (Option.bind (Option.bind (other (pk_sprites pokemon)) dream_world) front_default)
    (nullish (sprites_front_default (pk_sprites pokemon))
     None)))"

text \<open>\<^verbatim>\<open>[...types].sort((a, b) => a.slot - b.slot)\<close>: the array sort of the
  language is stable, and on integer slots the comparator orders by slot, so
  the copy is the stable sort of the input by slot.\<close>

definition mapTypes :: "PokemonTypeSlot list \<Rightarrow> string list" where
  "mapTypes types = map (\<lambda>entry. res_name (ts_type entry)) (sort_key ts_slot types)"

definition mapAbilities :: "PokemonAbilitySlot list \<Rightarrow> (string \<times> bool) list" where
  "mapAbilities abilities =
     map (\<lambda>entry. (res_name (ab_ability entry), ab_is_hidden entry)) (sort_key ab_slot abilities)"

definition mapStats :: "PokemonStatSlot list \<Rightarrow> (string \<times> int) list" where
  "mapStats stats = map (\<lambda>entry. (res_name (stat entry), base_stat entry)) stats"

text \<open>\<^verbatim>\<open>text?.replace(/\f|\n|\r/g, ' ')\<close>: every form feed (\<open>0x0C\<close>), line feed
  (\<open>0x0A\<close>) and carriage return (\<open>0x0D\<close>) becomes one space.\<close>

definition sanitizeFlavorText :: "string option \<Rightarrow> string option" where
  "sanitizeFlavorText text =
     map_option
       (map (\<lambda>c. if c = CHR 0x0C \<or> c = CHR 0x0A \<or> c = CHR 0x0D then CHR '' '' else c))
       text"

definition extractEnglishFlavor :: "PokemonSpecies \<Rightarrow> string option" where
  "extractEnglishFlavor species =
     sanitizeFlavorText
       (map_option flavor_text
          (find (\<lambda>entry. res_name (ft_language entry) = ''en'') (sp_flavor_text_entries species)))"

definition extractGenus :: "PokemonSpecies \<Rightarrow> string option" where
  "extractGenus species =
     Option.bind (sp_genera species)
       (\<lambda>genera. map_option genus (find (\<lambda>entry. res_name (gn_language entry) = ''en'') genera))"

definition mapToSummary :: "Pokemon \<Rightarrow> PokemonSummary" where
  "mapToSummary pokemon =
     \<lparr>sum_id = pk_id pokemon,
      sum_name = pk_name pokemon,
      sum_sprite = extractSprite pokemon,
      sum_types = mapTypes (pk_types pokemon)\<rparr>"

definition mapToDetail :: "Pokemon \<Rightarrow> PokemonSpecies \<Rightarrow> PokemonDetail" where
  "mapToDetail pokemon species =
     PokemonSummary.extend (mapToSummary pokemon)
       (PokemonDetail.fields
          (pk_height pokemon)
          (pk_weight pokemon)
          (pk_base_experience pokemon)
          (mapAbilities (pk_abilities pokemon))
          (mapStats (pk_stats pokemon))
          (extractEnglishFlavor species)
          (nullish (map_option res_name (sp_habitat species)) None)
          (nullish (extractGenus species) None)
          (sp_is_legendary species)
          (sp_is_mythical species))"

section \<open>Transport and cache\<close>

text \<open>
  What a rejected promise carries: an \<^verbatim>\<open>Error\<close> instance with its message
  (every failure of the HTTP client is one: a timeout, a connection error, a
  status outside 2xx), a bare string, or any other value.
\<close>

datatype thrown = ErrorObj string | ThrownString string | ThrownOther

text \<open>The response bodies of the three endpoints. The cache stores them as
  they arrive, below the mapping step.\<close>

datatype payload =
    ListPayload PokemonListResponse
  | PokemonPayload Pokemon
  | SpeciesPayload PokemonSpecies

record 'p CacheEntry =
  timestamp :: int
  data :: 'p

type_synonym request = "string \<times> params option"

text \<open>
  The surroundings of the module. \<open>net n req\<close> is the outcome of the HTTP GET
  \<open>req\<close> when it is the \<open>n\<close>-th request the module has issued (\<open>Inl\<close>: the
  promise rejects); \<open>clock n\<close> is what the \<open>n\<close>-th reading of \<^verbatim>\<open>Date.now()\<close>
  returns, in milliseconds; \<open>arrival n\<close> is the instant at which the outcome
  of the \<open>n\<close>-th request reaches the module (of two requests in flight, the
  one with the smaller instant is handled first); \<open>engine_message p\<close> is the
  message of the \<^verbatim>\<open>TypeError\<close> that the JavaScript engine raises where
  the module reads property \<open>p\<close> of \<^verbatim>\<open>undefined\<close> (the text is the
  engine's own, and the module reads each such property at one place).
\<close>

record 'p env =
  net :: "nat \<Rightarrow> request \<Rightarrow> thrown + 'p"
  clock :: "nat \<Rightarrow> int"
  arrival :: "nat \<Rightarrow> nat"
  engine_message :: "string \<Rightarrow> string"

text \<open>
  The mutable state below the store: the module-level \<^verbatim>\<open>cache\<close> table, the
  log of the requests handed to the HTTP client so far, and the number of
  clock readings so far.
\<close>

record 'p world =
  cache :: "string \<rightharpoonup> 'p CacheEntry"
  netlog :: "request list"
  ticks :: nat

definition DEFAULT_TTL :: int where
  "DEFAULT_TTL = 1000 * 60 * 5"

text \<open>
  \<^verbatim>\<open>getCached\<close> has one suspension point, the \<^verbatim>\<open>await\<close> of the HTTP call.
  \<open>getCached_start\<close> is the code before it: the lookup, the freshness test
  (the clock is read only when an entry exists, as \<^verbatim>\<open>&&\<close> short-circuits) and,
  on a miss, the request handed to the client. \<open>getCached_finish\<close> is the code
  after it: on a response, a fresh clock reading and \<^verbatim>\<open>cache.set\<close>; on a
  rejection, nothing but the rejection itself.
\<close>

datatype 'p pending = Ready 'p | InFlight string nat request

text \<open>The default parameter \<^verbatim>\<open>ttl = DEFAULT_TTL\<close>: an omitted argument is \<open>None\<close>.\<close>

definition ttl_of :: "int option \<Rightarrow> int" where
  "ttl_of ttl_arg = (case ttl_arg of None \<Rightarrow> DEFAULT_TTL | Some t \<Rightarrow> t)"

definition getCached_start ::
  "'p env \<Rightarrow> string \<Rightarrow> params option \<Rightarrow> int option \<Rightarrow> 'p world \<Rightarrow> 'p pending \<times> 'p world" where
  "getCached_start e url ps ttl_arg w =
     (let ttl = ttl_of ttl_arg;
          key = cacheKey url ps
      in case cache w key of
           None \<Rightarrow>
             (InFlight key (length (netlog w)) (url, ps),
              w\<lparr>netlog := netlog w @ [(url, ps)]\<rparr>)
         | Some cached \<Rightarrow>
             (let now = clock e (ticks w);
                  w1 = w\<lparr>ticks := Suc (ticks w)\<rparr>
              in if now - timestamp cached < ttl
                 then (Ready (data cached), w1)
                 else (InFlight key (length (netlog w1)) (url, ps),
                       w1\<lparr>netlog := netlog w1 @ [(url, ps)]\<rparr>)))"

definition getCached_finish ::
  "'p env \<Rightarrow> 'p pending \<Rightarrow> 'p world \<Rightarrow> (thrown + 'p) \<times> 'p world" where
  "getCached_finish e p w =
     (case p of
        Ready d \<Rightarrow> (Inr d, w)
      | InFlight key n req \<Rightarrow>
          (case net e n req of
             Inl err \<Rightarrow> (Inl err, w)
           | Inr d \<Rightarrow>
               (Inr d,
                w\<lparr>cache := (cache w)(key \<mapsto> \<lparr>timestamp = clock e (ticks w), data = d\<rparr>),
                  ticks := Suc (ticks w)\<rparr>)))"

definition getCached ::
  "'p env \<Rightarrow> string \<Rightarrow> params option \<Rightarrow> int option \<Rightarrow> 'p world \<Rightarrow> (thrown + 'p) \<times> 'p world" where
  "getCached e url ps ttl_arg w =
     (case getCached_start e url ps ttl_arg w of (p, w1) \<Rightarrow> getCached_finish e p w1)"

text \<open>
  \<^verbatim>\<open>Promise.all\<close> over several cached fetches. Every fetch runs up to its
  suspension point, in array order, before any response is handled (so two
  misses on one key both reach the network): this is \<open>start_all\<close>. The promises
  then settle in this order (\<open>settle_order\<close>, each promise with its array
  position): first the cache hits, which need no response, in array order; then
  the requests in flight, in the order in which their outcomes arrive. Each is
  handled by the code after the suspension point (\<open>finish_all\<close>). The combined
  promise rejects with the rejection that settles first, and otherwise fulfils
  with all values in array order (\<open>promise_all\<close>). The outcomes that arrive
  after the first rejection are still handled (each response is stored in the
  cache); the world returned is the one after the last of them.
\<close>

fun start_all ::
  "'p env \<Rightarrow> string list \<Rightarrow> 'p world \<Rightarrow> 'p pending list \<times> 'p world" where
  "start_all e [] w = ([], w)"
| "start_all e (url # urls) w =
     (case getCached_start e url None None w of
        (p, w1) \<Rightarrow> (case start_all e urls w1 of (ps, w2) \<Rightarrow> (p # ps, w2)))"

fun is_ready :: "'p pending \<Rightarrow> bool" where
  "is_ready (Ready d) = True"
| "is_ready (InFlight key n req) = False"

fun arrival_of :: "'p env \<Rightarrow> 'p pending \<Rightarrow> nat" where
  "arrival_of e (Ready d) = 0"
| "arrival_of e (InFlight key n req) = arrival e n"

definition settle_order :: "'p env \<Rightarrow> 'p pending list \<Rightarrow> (nat \<times> 'p pending) list" where
  "settle_order e ps =
     (let indexed = zip [0..<length ps] ps
      in filter (\<lambda>ip. is_ready (snd ip)) indexed
         @ sort_key (\<lambda>ip. arrival_of e (snd ip)) (filter (\<lambda>ip. \<not> is_ready (snd ip)) indexed))"

fun finish_all ::
  "'p env \<Rightarrow> (nat \<times> 'p pending) list \<Rightarrow> 'p world
     \<Rightarrow> (nat \<times> (thrown + 'p)) list \<times> 'p world" where
  "finish_all e [] w = ([], w)"
| "finish_all e (ip # ips) w =
     (case getCached_finish e (snd ip) w of
        (r, w1) \<Rightarrow> (case finish_all e ips w1 of (rs, w2) \<Rightarrow> ((fst ip, r) # rs, w2)))"

text \<open>\<open>promise_all\<close> takes the outcomes in the order in which they settled,
  each with its array position.\<close>

definition promise_all :: "(nat \<times> (thrown + 'a)) list \<Rightarrow> thrown + 'a list" where
  "promise_all settled =
     (case find (\<lambda>ir. isl (snd ir)) settled of
        Some (i, Inl err) \<Rightarrow> Inl err
      | _ \<Rightarrow>
          Inr (concat (map (\<lambda>ir. case snd ir of Inr v \<Rightarrow> [v] | Inl err \<Rightarrow> [])
                         (sort_key fst settled))))"

subsection \<open>The typed fetches\<close>

text \<open>
  \<^verbatim>\<open>getCached<T>\<close> casts the response body to \<open>T\<close> without a check. A body of
  another endpoint's shape lacks the field the caller reads first, so the first
  nested property access of the caller reads a property of \<^verbatim>\<open>undefined\<close> and
  throws a \<^verbatim>\<open>TypeError\<close>, which rejects the promise of the caller:
  \<^verbatim>\<open>response.results.map\<close> in \<^verbatim>\<open>loadList\<close>, \<^verbatim>\<open>pokemon.sprites.other\<close> in
  \<^verbatim>\<open>extractSprite\<close>, \<^verbatim>\<open>species.flavor_text_entries.find\<close> in
  \<^verbatim>\<open>extractEnglishFlavor\<close>. The typed views below make that rejection the
  outcome of the cast; its message is the engine's.
\<close>

definition type_error :: "'p env \<Rightarrow> string \<Rightarrow> thrown" where
  "type_error e property = ErrorObj (engine_message e property)"

definition as_list :: "payload env \<Rightarrow> thrown + payload \<Rightarrow> thrown + PokemonListResponse" where
  "as_list e r =
     (case r of
        Inl err \<Rightarrow> Inl err
      | Inr (ListPayload x) \<Rightarrow> Inr x
      | Inr _ \<Rightarrow> Inl (type_error e ''map''))"

definition as_pokemon :: "payload env \<Rightarrow> thrown + payload \<Rightarrow> thrown + Pokemon" where
  "as_pokemon e r =
     (case r of
        Inl err \<Rightarrow> Inl err
      | Inr (PokemonPayload x) \<Rightarrow> Inr x
      | Inr _ \<Rightarrow> Inl (type_error e ''other''))"

definition as_species :: "payload env \<Rightarrow> thrown + payload \<Rightarrow> thrown + PokemonSpecies" where
  "as_species e r =
     (case r of
        Inl err \<Rightarrow> Inl err
      | Inr (SpeciesPayload x) \<Rightarrow> Inr x
      | Inr _ \<Rightarrow> Inl (type_error e ''find''))"

datatype name_or_id = Name string | Id int

definition show_name_or_id :: "name_or_id \<Rightarrow> string" where
  "show_name_or_id x = (case x of Name s \<Rightarrow> s | Id i \<Rightarrow> string_of_int i)"

definition list_params :: "int \<Rightarrow> int \<Rightarrow> params" where
  "list_params limit offset = [(''limit'', JNum limit), (''offset'', JNum offset)]"

definition pokemon_url :: "name_or_id \<Rightarrow> string" where
  "pokemon_url nameOrId = ''/pokemon/'' @ show_name_or_id nameOrId"

definition species_url :: "name_or_id \<Rightarrow> string" where
  "species_url nameOrId = ''/pokemon-species/'' @ show_name_or_id nameOrId"

definition fetchPokemonList ::
  "payload env \<Rightarrow> int option \<Rightarrow> int option \<Rightarrow> payload world
     \<Rightarrow> (thrown + PokemonListResponse) \<times> payload world" where
  "fetchPokemonList e limit_arg offset_arg w =
     (let limit = (case limit_arg of None \<Rightarrow> 1000 | Some l \<Rightarrow> l);
          offset = (case offset_arg of None \<Rightarrow> 0 | Some off \<Rightarrow> off)
      in case getCached e ''/pokemon'' (Some (list_params limit offset)) None w of
           (r, w1) \<Rightarrow> (as_list e r, w1))"

definition fetchPokemonByNameOrId ::
  "payload env \<Rightarrow> name_or_id \<Rightarrow> payload world \<Rightarrow> (thrown + Pokemon) \<times> payload world" where
  "fetchPokemonByNameOrId e nameOrId w =
     (case getCached e (pokemon_url nameOrId) None None w of (r, w1) \<Rightarrow> (as_pokemon e r, w1))"

definition fetchPokemonSummary ::
  "payload env \<Rightarrow> name_or_id \<Rightarrow> payload world \<Rightarrow> (thrown + PokemonSummary) \<times> payload world" where
  "fetchPokemonSummary e nameOrId w =
     (case fetchPokemonByNameOrId e nameOrId w of
        (r, w1) \<Rightarrow> (map_sum id mapToSummary r, w1))"

text \<open>\<^verbatim>\<open>Promise.all(response.results.map((result) => fetchPokemonSummary(result.name)))\<close>:
  each promise of the array is a summary fetch, so the mapping (and a
  \<^verbatim>\<open>TypeError\<close> it raises) belongs to the promise that settles.\<close>

definition fetchPokemonSummaries ::
  "payload env \<Rightarrow> string list \<Rightarrow> payload world
     \<Rightarrow> (thrown + PokemonSummary list) \<times> payload world" where
  "fetchPokemonSummaries e names w =
     (case start_all e (map (\<lambda>n. pokemon_url (Name n)) names) w of
        (ps, w1) \<Rightarrow>
          (case finish_all e (settle_order e ps) w1 of
             (settled, w2) \<Rightarrow>
               (promise_all
                  (map (\<lambda>ir. (fst ir, map_sum id mapToSummary (as_pokemon e (snd ir)))) settled),
                w2)))"

text \<open>\<^verbatim>\<open>fetchPokemonDetail\<close>: the item and the species are fetched by one
  \<^verbatim>\<open>Promise.all\<close>, then destructured and mapped; \<^verbatim>\<open>mapToDetail\<close> reads the
  item before the species. (Two promises give two values; the last branch is
  there because HOL's \<open>case\<close> is total.)\<close>

definition fetchPokemonDetail ::
  "payload env \<Rightarrow> name_or_id \<Rightarrow> payload world \<Rightarrow> (thrown + PokemonDetail) \<times> payload world" where
  "fetchPokemonDetail e nameOrId w =
     (case start_all e [pokemon_url nameOrId, species_url nameOrId] w of
        (ps, w1) \<Rightarrow>
          (case finish_all e (settle_order e ps) w1 of
             (settled, w2) \<Rightarrow>
               (case promise_all settled of
                  Inl err \<Rightarrow> (Inl err, w2)
                | Inr [pv, sv] \<Rightarrow>
                    (case (as_pokemon e (Inr pv), as_species e (Inr sv)) of
                       (Inr pokemon, Inr species) \<Rightarrow> (Inr (mapToDetail pokemon species), w2)
                     | (Inl err, _) \<Rightarrow> (Inl err, w2)
                     | (_, Inl err) \<Rightarrow> (Inl err, w2))
                | Inr _ \<Rightarrow> (Inl ThrownOther, w2))))"

section \<open>Aggregate store\<close>

text \<open>
  The provider keeps seven pieces of React state. An operation is modelled
  run to completion on the store it was called with: it returns the store after
  each of its setter calls, in order (so every state a render could observe is
  in the list), and the world it leaves behind. The store after the operation
  is the last of these, or the store it started from when it set nothing.
  Operations are taken one at a time; the interleaving of two operations that
  are both suspended is outside the model.

  \<^verbatim>\<open>loadList\<close> is created by \<^verbatim>\<open>useCallback\<close> with the dependency
  \<^verbatim>\<open>[list.length]\<close>: its guard reads the \<^verbatim>\<open>list\<close> of the render that created
  the callback, not the state at the time of the call. That list is the
  parameter \<open>captured\<close> of the model. The callback that the latest render hands
  out has captured a list as long as the current one; a caller that kept an
  older callback calls with the older list. The setters write to the current
  store in either case. (\<^verbatim>\<open>getSummary\<close> and \<^verbatim>\<open>getDetail\<close> read no state.)
\<close>

record ListParams =
  lp_limit :: int
  lp_offset :: int

record store =
  list :: "PokemonSummary list"
  totalCount :: int
  isListLoading :: bool
  listError :: "string option"
  listParams :: ListParams
  summariesById :: "int \<rightharpoonup> PokemonSummary"
  detailsById :: "int \<rightharpoonup> PokemonDetail"

definition initial_store :: store where
  "initial_store =
     \<lparr>list = [], totalCount = 0, isListLoading = False, listError = None,
      listParams = \<lparr>lp_limit = 1000, lp_offset = 0\<rparr>,
      summariesById = Map.empty, detailsById = Map.empty\<rparr>"

definition final_store :: "store \<Rightarrow> store list \<Rightarrow> store" where
  "final_store s trace = last (s # trace)"

definition default_message :: string where
  "default_message =
     ''Something went wrong while talking to Pok'' @ [CHR 0xC3, CHR 0xA9] @ ''API.''"

definition extractErrorMessage :: "thrown \<Rightarrow> string" where
  "extractErrorMessage error =
     (case error of
        ErrorObj message \<Rightarrow> message
      | ThrownString s \<Rightarrow> s
      | ThrownOther \<Rightarrow> default_message)"

text \<open>The body of the \<^verbatim>\<open>try\<close> block of \<^verbatim>\<open>loadList\<close> up to its first setter:
  the index fetch, then the summaries of all returned names.\<close>

definition loadList_fetch ::
  "payload env \<Rightarrow> int \<Rightarrow> int \<Rightarrow> payload world
     \<Rightarrow> (thrown + PokemonListResponse \<times> PokemonSummary list) \<times> payload world" where
  "loadList_fetch e limit offset w =
     (case fetchPokemonList e (Some limit) (Some offset) w of
        (Inl err, w1) \<Rightarrow> (Inl err, w1)
      | (Inr response, w1) \<Rightarrow>
          (case fetchPokemonSummaries e (map res_name (plr_results response)) w1 of
             (Inl err, w2) \<Rightarrow> (Inl err, w2)
           | (Inr summaries, w2) \<Rightarrow> (Inr (response, summaries), w2)))"

definition loadList ::
  "payload env \<Rightarrow> PokemonSummary list \<Rightarrow> int option \<Rightarrow> int option \<Rightarrow> store
     \<Rightarrow> payload world \<Rightarrow> store list \<times> payload world" where
  "loadList e captured limit_arg offset_arg s w =
     (let limit = (case limit_arg of None \<Rightarrow> 1000 | Some l \<Rightarrow> l);
          offset = (case offset_arg of None \<Rightarrow> 0 | Some off \<Rightarrow> off)
      in if length captured > 0 then ([], w)
         else
           (let s1 = s\<lparr>isListLoading := True\<rparr>;
                s2 = s1\<lparr>listError := None\<rparr>;
                s3 = s2\<lparr>listParams := \<lparr>lp_limit = limit, lp_offset = offset\<rparr>\<rparr>
            in case loadList_fetch e limit offset w of
                 (Inr (response, summaries), w1) \<Rightarrow>
                   (let s4 = s3\<lparr>list := summaries\<rparr>;
                        s5 = s4\<lparr>totalCount := plr_count response\<rparr>;
                        s6 = s5\<lparr>summariesById :=
                                  fold (\<lambda>summary next. next(sum_id summary \<mapsto> summary))
                                    summaries (summariesById s5)\<rparr>;
                        s7 = s6\<lparr>isListLoading := False\<rparr>
                    in ([s1, s2, s3, s4, s5, s6, s7], w1))
               | (Inl err, w1) \<Rightarrow>
                   (let s4 = s3\<lparr>listError := Some (extractErrorMessage err)\<rparr>;
                        s5 = s4\<lparr>isListLoading := False\<rparr>
                    in ([s1, s2, s3, s4, s5], w1))))"

definition getSummary ::
  "payload env \<Rightarrow> name_or_id \<Rightarrow> store \<Rightarrow> payload world
     \<Rightarrow> (thrown + PokemonSummary) \<times> store list \<times> payload world" where
  "getSummary e idOrName s w =
     (case fetchPokemonSummary e idOrName w of
        (Inl err, w1) \<Rightarrow> (Inl err, [], w1)
      | (Inr summary, w1) \<Rightarrow>
          (Inr summary,
           [s\<lparr>summariesById := (summariesById s)(sum_id summary \<mapsto> summary)\<rparr>],
           w1))"

text \<open>
  \<^verbatim>\<open>getDetail\<close> stores the detail object itself under its id in both maps.
  The summary map is typed \<^verbatim>\<open>Record<number, PokemonSummary>\<close>; what a reader
  of that map gets is the detail seen as a summary, its four summary fields.
\<close>

definition getDetail ::
  "payload env \<Rightarrow> name_or_id \<Rightarrow> store \<Rightarrow> payload world
     \<Rightarrow> (thrown + PokemonDetail) \<times> store list \<times> payload world" where
  "getDetail e idOrName s w =
     (case fetchPokemonDetail e idOrName w of
        (Inl err, w1) \<Rightarrow> (Inl err, [], w1)
      | (Inr detail, w1) \<Rightarrow>
          (let s1 = s\<lparr>detailsById := (detailsById s)(sum_id detail \<mapsto> detail)\<rparr>;
               s2 = s1\<lparr>summariesById :=
                         (summariesById s1)(sum_id detail \<mapsto> PokemonSummary.truncate detail)\<rparr>
           in (Inr detail, [s1, s2], w1)))"

section \<open>Reference points for the statements\<close>

subsection \<open>The four sprite sources, by name\<close>

text \<open>The four URLs that the sprite precedence speaks of, and what "the first
  present one" of a list of optional values is.\<close>

definition official_artwork_url :: "Pokemon \<Rightarrow> string option" where
  "official_artwork_url p =
     Option.bind (Option.bind (other (pk_sprites p)) official_artwork) front_default"

definition home_url :: "Pokemon \<Rightarrow> string option" where
  "home_url p = Option.bind (Option.bind (other (pk_sprites p)) home) home_front_default"

definition dream_world_url :: "Pokemon \<Rightarrow> string option" where
  "dream_world_url p =
     Option.bind (Option.bind (other (pk_sprites p)) dream_world) front_default"

definition default_url :: "Pokemon \<Rightarrow> string option" where
  "default_url p = sprites_front_default (pk_sprites p)"

definition first_present :: "'a option list \<Rightarrow> 'a option" where
  "first_present us = (case filter (\<lambda>u. u \<noteq> None) us of [] \<Rightarrow> None | u # _ \<Rightarrow> u)"

subsection \<open>Freshness of a cache entry\<close>

text \<open>The cache holds an entry under \<open>key\<close> whose age, at the clock reading a
  call would make now, is below \<open>ttl\<close>.\<close>

definition fresh :: "'p env \<Rightarrow> 'p world \<Rightarrow> string \<Rightarrow> int \<Rightarrow> bool" where
  "fresh e w key ttl =
     (case cache w key of
        None \<Rightarrow> False
      | Some cached \<Rightarrow> clock e (ticks w) - timestamp cached < ttl)"

text \<open>The world right after a call that missed has handed its request to the
  HTTP client: the request is logged, and the clock was read once if (and only
  if) a stale entry was found.\<close>

definition issued :: "string \<Rightarrow> params option \<Rightarrow> 'p world \<Rightarrow> 'p world" where
  "issued url ps w =
     w\<lparr>netlog := netlog w @ [(url, ps)],
       ticks := (if cache w (cacheKey url ps) = None then ticks w else Suc (ticks w))\<rparr>"

subsection \<open>Sample data\<close>

definition named :: "string \<Rightarrow> NamedAPIResource" where
  "named n = \<lparr>res_name = n, res_url = []\<rparr>"

definition type_slot :: "int \<Rightarrow> string \<Rightarrow> PokemonTypeSlot" where
  "type_slot i n = \<lparr>ts_slot = i, ts_type = named n\<rparr>"

definition ability_slot :: "int \<Rightarrow> string \<Rightarrow> bool \<Rightarrow> PokemonAbilitySlot" where
  "ability_slot i n h = \<lparr>ab_ability = named n, ab_is_hidden = h, ab_slot = i\<rparr>"

definition stat_slot :: "string \<Rightarrow> int \<Rightarrow> PokemonStatSlot" where
  "stat_slot n v = \<lparr>base_stat = v, effort = 0, stat = named n\<rparr>"

definition sprites_of ::
  "string option \<Rightarrow> string option \<Rightarrow> string option \<Rightarrow> string option \<Rightarrow> PokemonSprites" where
  "sprites_of art hm dream dflt =
     \<lparr>sprites_front_default = dflt, sprites_front_shiny = None,
      other =
        Some \<lparr>dream_world = map_option (\<lambda>u. \<lparr>front_default = Some u\<rparr>) dream,
              home = map_option (\<lambda>u. \<lparr>home_front_default = Some u, home_front_shiny = None\<rparr>) hm,
              official_artwork = map_option (\<lambda>u. \<lparr>front_default = Some u\<rparr>) art\<rparr>\<rparr>"

definition flavor_entry :: "string \<Rightarrow> string \<Rightarrow> PokemonSpeciesFlavorText" where
  "flavor_entry lang t = \<lparr>flavor_text = t, ft_language = named lang, ft_version = named ''red''\<rparr>"

definition pikachu_species :: "PokemonSpeciesFlavorText list \<Rightarrow> PokemonSpecies" where
  "pikachu_species entries =
     \<lparr>sp_id = 25, sp_name = ''pikachu'', sp_color = Some (named ''yellow''),
      sp_habitat = Some (named ''forest''),
      sp_genera = Some [\<lparr>genus = ''Mouse Pokemon'', gn_language = named ''en''\<rparr>],
      sp_flavor_text_entries = entries,
      sp_is_legendary = False, sp_is_mythical = False, sp_evolution_chain = None\<rparr>"

definition pikachu :: "PokemonSprites \<Rightarrow> Pokemon" where
  "pikachu sp =
     \<lparr>pk_id = 25, pk_name = ''pikachu'', pk_height = 4, pk_weight = 60, pk_order = 35,
      pk_base_experience = 112, pk_sprites = sp,
      pk_types = [type_slot 1 ''electric''],
      pk_abilities = [ability_slot 3 ''lightning-rod'' True, ability_slot 1 ''static'' False],
      pk_stats = [stat_slot ''hp'' 35, stat_slot ''attack'' 55],
      pk_species = named ''pikachu''\<rparr>"

definition sample_pikachu :: Pokemon where
  "sample_pikachu = pikachu (sprites_of None None None (Some ''x.png''))"

definition sample_species :: PokemonSpecies where
  "sample_species =
     pikachu_species [flavor_entry ''ja'' ''Denki'', flavor_entry ''en'' ''It stores electricity.'']"

definition sample_index :: PokemonListResponse where
  "sample_index =
     \<lparr>plr_count = 1302, plr_next = None, plr_previous = None,
      plr_results = [named ''pikachu'']\<rparr>"

text \<open>A catalog that knows one creature, and a network that is down. The
  sample clock advances one second per reading, and responses arrive in the
  order of the requests.\<close>

definition sample_net :: "nat \<Rightarrow> request \<Rightarrow> thrown + payload" where
  "sample_net n req =
     (if fst req = ''/pokemon'' then Inr (ListPayload sample_index)
      else if fst req = ''/pokemon/pikachu'' \<or> fst req = ''/pokemon/25''
        then Inr (PokemonPayload sample_pikachu)
      else if fst req = ''/pokemon-species/pikachu'' \<or> fst req = ''/pokemon-species/25''
        then Inr (SpeciesPayload sample_species)
      else Inl (ErrorObj ''Request failed with status code 404''))"

definition v8_message :: "string \<Rightarrow> string" where
  "v8_message property =
     ''Cannot read properties of undefined (reading '' @ [CHR 0x27] @ property @ [CHR 0x27] @ '')''"

definition sample_env :: "payload env" where
  "sample_env =
     \<lparr>net = sample_net, clock = (\<lambda>n. 1000 * int n), arrival = (\<lambda>n. n),
      engine_message = v8_message\<rparr>"

definition offline_env :: "payload env" where
  "offline_env =
     \<lparr>net = (\<lambda>n req. Inl (ErrorObj ''Network Error'')), clock = (\<lambda>n. 1000 * int n),
      arrival = (\<lambda>n. n), engine_message = v8_message\<rparr>"

definition empty_world :: "payload world" where
  "empty_world = \<lparr>cache = Map.empty, netlog = [], ticks = 0\<rparr>"

text \<open>A second catalog: its index lists three names, of which only the
  second can be fetched (the first is unknown to the service, the request for
  the third times out), and the outcomes arrive in the reverse order of the
  requests.\<close>

definition flaky_index :: PokemonListResponse where
  "flaky_index =
     \<lparr>plr_count = 3, plr_next = None, plr_previous = None,
      plr_results = [named ''missingno'', named ''pikachu'', named ''glitch'']\<rparr>"

definition flaky_net :: "nat \<Rightarrow> request \<Rightarrow> thrown + payload" where
  "flaky_net n req =
     (if fst req = ''/pokemon'' then Inr (ListPayload flaky_index)
      else if fst req = ''/pokemon/glitch'' then Inl (ErrorObj ''timeout of 60000ms exceeded'')
      else sample_net n req)"

definition flaky_env :: "payload env" where
  "flaky_env =
     \<lparr>net = flaky_net, clock = (\<lambda>n. 1000 * int n), arrival = (\<lambda>n. 100 - n),
      engine_message = v8_message\<rparr>"

text \<open>A store with an empty list that is not the initial one: a detail was
  fetched, and a list load with limit 5 and offset 7 failed.\<close>

definition visited_store :: store where
  "visited_store =
     \<lparr>list = [], totalCount = 0, isListLoading = False, listError = Some ''Network Error'',
      listParams = \<lparr>lp_limit = 5, lp_offset = 7\<rparr>,
      summariesById = [25 \<mapsto> mapToSummary sample_pikachu],
      detailsById = [25 \<mapsto> mapToDetail sample_pikachu sample_species]\<rparr>"

text \<open>Three runs on the samples, named for the statements below: the first
  list load of a session on the sample catalog, the same with limit 5 and
  offset 7, and the first list load while the network is down. Each is called
  through the callback of the first render, which captured the empty initial
  list.\<close>

definition loaded_store :: store where
  "loaded_store =
     final_store initial_store
       (fst (loadList sample_env (list initial_store) None None initial_store empty_world))"

definition loaded_world :: "payload world" where
  "loaded_world = snd (loadList sample_env (list initial_store) None None initial_store empty_world)"

definition paged_store :: store where
  "paged_store =
     final_store initial_store
       (fst (loadList sample_env (list initial_store) (Some 5) (Some 7) initial_store empty_world))"

definition paged_world :: "payload world" where
  "paged_world =
     snd (loadList sample_env (list initial_store) (Some 5) (Some 7) initial_store empty_world)"

definition failed_store :: store where
  "failed_store =
     final_store initial_store
       (fst (loadList offline_env (list initial_store) None None initial_store empty_world))"

definition failed_world :: "payload world" where
  "failed_world = snd (loadList offline_env (list initial_store) None None initial_store empty_world)"

subsection \<open>Arguments and failures of a list load\<close>

text \<open>The values the two parameters of \<^verbatim>\<open>loadList\<close> take, the outcomes of
  the per-item summary fetches of a load, and what it means that some fetch of
  a load fails: the index fetch does, or the summary fetch of a returned name
  does.\<close>

definition arg_limit :: "int option \<Rightarrow> int" where
  "arg_limit limit_arg = (case limit_arg of None \<Rightarrow> 1000 | Some l \<Rightarrow> l)"

definition arg_offset :: "int option \<Rightarrow> int" where
  "arg_offset offset_arg = (case offset_arg of None \<Rightarrow> 0 | Some off \<Rightarrow> off)"

definition summary_results ::
  "payload env \<Rightarrow> string list \<Rightarrow> payload world \<Rightarrow> (thrown + PokemonSummary) list" where
  "summary_results e names w =
     (case start_all e (map (\<lambda>n. pokemon_url (Name n)) names) w of
        (ps, w1) \<Rightarrow>
          map (\<lambda>ir. map_sum id mapToSummary (as_pokemon e (snd ir)))
            (fst (finish_all e (settle_order e ps) w1)))"

definition some_fetch_fails :: "payload env \<Rightarrow> int \<Rightarrow> int \<Rightarrow> payload world \<Rightarrow> bool" where
  "some_fetch_fails e limit offset w =
     (case fetchPokemonList e (Some limit) (Some offset) w of
        (Inl err, w1) \<Rightarrow> True
      | (Inr response, w1) \<Rightarrow>
          list_ex isl (summary_results e (map res_name (plr_results response)) w1))"

section \<open>Cache key: verified properties\<close>

subsection \<open>Array-index keys are told apart by their values\<close>

lemma digit_facts:
  assumes "is_digit c"
  shows "digit_val c < 10" and "digit_char (digit_val c) = c"
    and "c \<noteq> CHR ''0'' \<Longrightarrow> 0 < digit_val c"
  using assms by (auto simp: is_digit_def digit_val_def digit_char_def)

lemma nat_of_digits_snoc:
  "nat_of_digits (ks @ [c]) = 10 * nat_of_digits ks + digit_val c"
  by (simp add: nat_of_digits_def)

lemma digits_roundtrip:
  "k \<noteq> [] \<Longrightarrow> list_all is_digit k \<Longrightarrow> (1 < length k \<longrightarrow> hd k \<noteq> CHR ''0'') \<Longrightarrow>
     digits_of_nat (nat_of_digits k) = k \<and> (hd k \<noteq> CHR ''0'' \<longrightarrow> 0 < nat_of_digits k)"
proof (induction k rule: rev_induct)
  case Nil
  then show ?case by simp
next
  case (snoc c ks)
  from snoc.prems(2) have dc: "is_digit c" and dks: "list_all is_digit ks" by simp_all
  show ?case
  proof (cases "ks = []")
    case True
    with digit_facts [OF dc] show ?thesis
      by (simp add: nat_of_digits_def digits_of_nat.simps)
  next
    case False
    with snoc.prems(3) have hd: "hd ks \<noteq> CHR ''0''" by simp
    with snoc.IH [OF False dks] have ih: "digits_of_nat (nat_of_digits ks) = ks"
      and pos: "0 < nat_of_digits ks" by simp_all
    let ?n = "10 * nat_of_digits ks + digit_val c"
    from pos have big: "\<not> ?n < 10" by simp
    from digit_facts(1) [OF dc] have dv: "?n div 10 = nat_of_digits ks" "?n mod 10 = digit_val c"
      by simp_all
    have "digits_of_nat ?n = ks @ [c]"
      using big dv ih digit_facts(2) [OF dc]
      by (subst digits_of_nat.simps) simp
    with False hd pos show ?thesis
      by (simp add: nat_of_digits_snoc)
  qed
qed

lemma array_index_inj:
  assumes "is_array_index k" and "is_array_index k'" and "nat_of_digits k = nat_of_digits k'"
  shows "k = k'"
proof -
  have c: "k \<noteq> [] \<and> list_all is_digit k \<and> (1 < length k \<longrightarrow> hd k \<noteq> CHR ''0'')"
    if "is_array_index k" for k
  proof -
    from that have a: "k \<noteq> []" "list_all is_digit k" "k = ''0'' \<or> hd k \<noteq> CHR ''0''"
      unfolding is_array_index_def by blast+
    from a(3) have "1 < length k \<longrightarrow> hd k \<noteq> CHR ''0''" by auto
    with a(1,2) show ?thesis by blast
  qed
  from c [OF assms(1)] have "k = digits_of_nat (nat_of_digits k)"
    using digits_roundtrip [of k] by simp
  also have "\<dots> = digits_of_nat (nat_of_digits k')"
    by (simp only: assms(3))
  also from c [OF assms(2)] have "\<dots> = k'"
    using digits_roundtrip [of k'] by simp
  finally show ?thesis .
qed

lemma own_entries_eq:
  assumes dp: "distinct (map fst ps)" and dq: "distinct (map fst qs)"
    and same: "set ps = set qs"
    and names: "filter (\<lambda>p. \<not> is_array_index (fst p)) ps
                 = filter (\<lambda>p. \<not> is_array_index (fst p)) qs"
  shows "own_entries ps = own_entries qs"
proof -
  let ?ix = "\<lambda>p :: string \<times> 'a. is_array_index (fst p)"
  let ?val = "\<lambda>p :: string \<times> 'a. nat_of_digits (fst p)"
  from dp dq have "distinct ps" "distinct qs"
    by (simp_all add: distinct_map)
  with same have "mset ps = mset qs"
    by (simp add: set_eq_iff_mset_eq_distinct)
  then have m: "mset (filter ?ix ps) = mset (filter ?ix qs)"
    by simp
  have inj: "inj_on ?val (set (filter ?ix ps))"
  proof (rule inj_onI)
    fix p p' assume p: "p \<in> set (filter ?ix ps)" and p': "p' \<in> set (filter ?ix ps)"
      and v: "?val p = ?val p'"
    then have "fst p = fst p'"
      using array_index_inj [of "fst p" "fst p'"] by simp
    moreover from dp have "inj_on fst (set ps)"
      by (simp add: distinct_map)
    ultimately show "p = p'"
      using p p' by (auto dest: inj_onD)
  qed
  from m inj have "sort_key ?val (filter ?ix ps) = sort_key ?val (filter ?ix qs)"
    by (rule sort_key_eq_sort_key)
  with names show ?thesis
    by (simp add: own_entries_def)
qed

subsection \<open>The key and the order of the properties\<close>

lemma cacheKey_outer:
  "cacheKey url (Some ps) =
     ''{'' @ json_quote ''url'' @ '':'' @ json_quote url @ '','' @ json_quote ''params'' @ '':''
       @ json_stringify (JObj ps) @ ''}''"
  by (simp add: cacheKey_def own_entries_def is_array_index_def is_digit_def
      del: json_stringify.simps(7))
     (simp add: own_entries_def is_array_index_def is_digit_def)

text \<open>
  Claim C1, as amended. \<^verbatim>\<open>cacheKey\<close> serialises the parameter object with
  \<^verbatim>\<open>JSON.stringify\<close>, which writes the properties in enumeration order, so
  the key depends on the order in which the named keys were inserted. What
  holds: for every endpoint and every two well-formed parameter objects that
  hold the same key/value pairs and list their keys that are not array indices
  in the same relative order, the key is the same string. (Keys that are array
  indices are enumerated in numeric order wherever they were inserted. An
  array index is the canonical decimal numeral of an integer from \<open>0\<close> to
  \<open>2^32 - 2\<close>; every other key, a numeral such as \<open>-1\<close>, \<open>01\<close> or
  \<open>4294967295\<close> included, counts as named.)
\<close>

theorem cacheKey_enumeration_order:
  assumes "distinct (map fst ps)" and "distinct (map fst qs)"
    and "set ps = set qs"
    and "filter (\<lambda>p. \<not> is_array_index (fst p)) ps = filter (\<lambda>p. \<not> is_array_index (fst p)) qs"
  shows "cacheKey url (Some ps) = cacheKey url (Some qs)"
proof -
  have "json_stringify (JObj ps) = json_stringify (JObj qs)"
    using own_entries_eq [OF assms] by simp
  then show ?thesis
    by (simp add: cacheKey_outer)
qed

lemma sample_key_kinds: "is_array_index ''2''" "is_array_index ''10''" "\<not> is_array_index ''limit''"
    "\<not> is_array_index ''offset''"
  by (simp_all add: is_array_index_def is_digit_def nat_of_digits_def digit_val_def)

theorem cacheKey_enumeration_order_witness:
  "cacheKey ''/pokemon'' (Some [(''10'', JNum 5), (''limit'', JNum 1000), (''2'', JNull), (''offset'', JNum 0)])
     = cacheKey ''/pokemon'' (Some [(''limit'', JNum 1000), (''2'', JNull), (''offset'', JNum 0), (''10'', JNum 5)])"
proof -
  let ?ps = "[(''10'', JNum 5), (''limit'', JNum 1000), (''2'', JNull), (''offset'', JNum 0)]"
  let ?qs = "[(''limit'', JNum 1000), (''2'', JNull), (''offset'', JNum 0), (''10'', JNum 5)]"
  have h1: "distinct (map fst ?ps)" by simp
  have h2: "distinct (map fst ?qs)" by simp
  have h3: "set ?ps = set ?qs" by auto
  have h4: "filter (\<lambda>p. \<not> is_array_index (fst p)) ?ps = filter (\<lambda>p. \<not> is_array_index (fst p)) ?qs"
    by (simp add: sample_key_kinds)
  from cacheKey_enumeration_order [OF h1 h2 h3 h4] show ?thesis .
qed

text \<open>
  The claim as stated fails: \<^verbatim>\<open>{limit: 1000, offset: 0}\<close> and
  \<^verbatim>\<open>{offset: 0, limit: 1000}\<close> hold the same pairs and get different keys, so
  the two lookups address different cache entries.
\<close>

theorem cacheKey_insertion_order_sensitive:
  "set [(''limit'', JNum 1000), (''offset'', JNum 0)] = set [(''offset'', JNum 0), (''limit'', JNum 1000)]
   \<and> cacheKey ''/pokemon'' (Some [(''limit'', JNum 1000), (''offset'', JNum 0)])
      \<noteq> cacheKey ''/pokemon'' (Some [(''offset'', JNum 0), (''limit'', JNum 1000)])"
proof -
  have a: "set [(''limit'', JNum 1000), (''offset'', JNum 0)]
      = set [(''offset'', JNum 0), (''limit'', JNum (1000::int))]"
    by auto
  have b: "cacheKey ''/pokemon'' (Some [(''limit'', JNum 1000), (''offset'', JNum 0)])
      \<noteq> cacheKey ''/pokemon'' (Some [(''offset'', JNum 0), (''limit'', JNum 1000)])"
    by (simp add: cacheKey_def own_entries_def is_array_index_def is_digit_def json_quote_def
        json_escape_def)
  from a b show ?thesis by blast
qed

text \<open>
  Only array indices are exempt from the order condition. The numerals \<open>-1\<close>
  and \<open>-2\<close> are not array indices, so they are enumerated in insertion order
  like any named key, and the key depends on that order.
\<close>

lemma cacheKey_named_numerals:
  "\<not> is_array_index ''-1''" "\<not> is_array_index ''-2''"
  "cacheKey ''/pokemon'' (Some [(''-1'', JNum 1), (''-2'', JNum 2)])
     \<noteq> cacheKey ''/pokemon'' (Some [(''-2'', JNum 2), (''-1'', JNum 1)])"
  by (simp_all add: cacheKey_def own_entries_def is_array_index_def is_digit_def json_quote_def
        json_escape_def)

section \<open>Domain mapper: verified properties\<close>

subsection \<open>Sprite precedence\<close>

text \<open>
  Claim C6. For every catalog item, \<open>extractSprite\<close> returns the first present
  URL in the order official artwork, home, dream world, the item's own default
  sprite, and is absent when none of the four is present. The first conjunct
  states this for all items at once; the others spell the precedence out level
  by level.
\<close>

theorem extractSprite_precedence:
  "extractSprite p =
     first_present [official_artwork_url p, home_url p, dream_world_url p, default_url p]
   \<and> (official_artwork_url p = Some a \<longrightarrow> extractSprite p = Some a)
   \<and> (official_artwork_url p = None \<and> home_url p = Some h \<longrightarrow> extractSprite p = Some h)
   \<and> (official_artwork_url p = None \<and> home_url p = None \<and> dream_world_url p = Some d
        \<longrightarrow> extractSprite p = Some d)
   \<and> (official_artwork_url p = None \<and> home_url p = None \<and> dream_world_url p = None
        \<longrightarrow> extractSprite p = default_url p)"
  by (auto simp: extractSprite_def first_present_def official_artwork_url_def home_url_def
        dream_world_url_def default_url_def nullish_def split: option.splits)

lemma sprite_sources_pikachu:
  "official_artwork_url (pikachu (sprites_of art hm dream dflt)) = art"
  "home_url (pikachu (sprites_of art hm dream dflt)) = hm"
  "dream_world_url (pikachu (sprites_of art hm dream dflt)) = dream"
  "default_url (pikachu (sprites_of art hm dream dflt)) = dflt"
  by (cases art; cases hm; cases dream;
      simp add: pikachu_def sprites_of_def official_artwork_url_def home_url_def
        dream_world_url_def default_url_def)+

text \<open>The three records of the specification's test (all four present; only
  home and default present; none present) and two more levels.\<close>

theorem extractSprite_precedence_witness:
  "extractSprite (pikachu (sprites_of (Some ''art.png'') (Some ''home.png'') (Some ''dream.svg'') (Some ''x.png'')))
     = Some ''art.png''
   \<and> extractSprite (pikachu (sprites_of None (Some ''home.png'') None (Some ''x.png''))) = Some ''home.png''
   \<and> extractSprite (pikachu (sprites_of None None (Some ''dream.svg'') (Some ''x.png''))) = Some ''dream.svg''
   \<and> extractSprite (pikachu (sprites_of None None None (Some ''x.png''))) = Some ''x.png''
   \<and> extractSprite (pikachu (sprites_of None None None None)) = None"
proof -
  have c1: "extractSprite (pikachu (sprites_of (Some ''art.png'') (Some ''home.png'') (Some ''dream.svg'') (Some ''x.png'')))
     = Some ''art.png''"
    using extractSprite_precedence [of "pikachu (sprites_of (Some ''art.png'') (Some ''home.png'') (Some ''dream.svg'') (Some ''x.png''))" "''art.png''" "[]" "[]"]
    by (simp add: sprite_sources_pikachu first_present_def)
  have c2: "extractSprite (pikachu (sprites_of None (Some ''home.png'') None (Some ''x.png''))) = Some ''home.png''"
    using extractSprite_precedence [of "pikachu (sprites_of None (Some ''home.png'') None (Some ''x.png''))" "[]" "''home.png''" "[]"]
    by (simp add: sprite_sources_pikachu first_present_def)
  have c3: "extractSprite (pikachu (sprites_of None None (Some ''dream.svg'') (Some ''x.png''))) = Some ''dream.svg''"
    using extractSprite_precedence [of "pikachu (sprites_of None None (Some ''dream.svg'') (Some ''x.png''))" "[]" "[]" "''dream.svg''"]
    by (simp add: sprite_sources_pikachu first_present_def)
  have c4: "extractSprite (pikachu (sprites_of None None None (Some ''x.png''))) = Some ''x.png''"
    using extractSprite_precedence [of "pikachu (sprites_of None None None (Some ''x.png''))" "[]" "[]" "[]"]
    by (simp add: sprite_sources_pikachu first_present_def)
  have c5: "extractSprite (pikachu (sprites_of None None None None)) = None"
    using extractSprite_precedence [of "pikachu (sprites_of None None None None)" "[]" "[]" "[]"]
    by (simp add: sprite_sources_pikachu first_present_def)
  from c1 c2 c3 c4 c5 show ?thesis by simp
qed

subsection \<open>Slot ordering\<close>

text \<open>
  Claim C8. For every list of type slots, \<open>mapTypes\<close> returns the names of a
  rearrangement of the input that ascends by slot index, whatever the input
  order was; every name occurs as often as in the input (duplicates are
  preserved); and when the slot indices are pairwise different, two inputs that
  are rearrangements of each other give the same output. \<open>mapAbilities\<close> does the
  same with (name, hidden flag) pairs. \<open>mapStats\<close> keeps the source order: its
  \<open>i\<close>-th output is the (stat name, base value) pair of the \<open>i\<close>-th input.
\<close>

theorem slot_ordering:
  "(\<exists>ys. mset ys = mset types \<and> sorted (map ts_slot ys)
         \<and> mapTypes types = map (\<lambda>entry. res_name (ts_type entry)) ys)
   \<and> mset (mapTypes types) = mset (map (\<lambda>entry. res_name (ts_type entry)) types)
   \<and> (mset types = mset types' \<and> inj_on ts_slot (set types) \<longrightarrow> mapTypes types = mapTypes types')
   \<and> (\<exists>ys. mset ys = mset abilities \<and> sorted (map ab_slot ys)
         \<and> mapAbilities abilities = map (\<lambda>entry. (res_name (ab_ability entry), ab_is_hidden entry)) ys)
   \<and> (mset abilities = mset abilities' \<and> inj_on ab_slot (set abilities)
        \<longrightarrow> mapAbilities abilities = mapAbilities abilities')
   \<and> length (mapStats stats) = length stats
   \<and> (\<forall>i < length stats. mapStats stats ! i = (res_name (stat (stats ! i)), base_stat (stats ! i)))"
proof -
  have a: "\<exists>ys. mset ys = mset types \<and> sorted (map ts_slot ys)
         \<and> mapTypes types = map (\<lambda>entry. res_name (ts_type entry)) ys"
    by (rule exI [of _ "sort_key ts_slot types"]) (simp add: mapTypes_def)
  have b: "mset (mapTypes types) = mset (map (\<lambda>entry. res_name (ts_type entry)) types)"
    by (simp add: mapTypes_def)
  have c: "mset types = mset types' \<and> inj_on ts_slot (set types) \<longrightarrow> mapTypes types = mapTypes types'"
    by (simp add: mapTypes_def sort_key_eq_sort_key)
  have d: "\<exists>ys. mset ys = mset abilities \<and> sorted (map ab_slot ys)
         \<and> mapAbilities abilities = map (\<lambda>entry. (res_name (ab_ability entry), ab_is_hidden entry)) ys"
    by (rule exI [of _ "sort_key ab_slot abilities"]) (simp add: mapAbilities_def)
  have e: "mset abilities = mset abilities' \<and> inj_on ab_slot (set abilities)
        \<longrightarrow> mapAbilities abilities = mapAbilities abilities'"
    by (simp add: mapAbilities_def sort_key_eq_sort_key)
  have f: "length (mapStats stats) = length stats
     \<and> (\<forall>i < length stats. mapStats stats ! i = (res_name (stat (stats ! i)), base_stat (stats ! i)))"
    by (simp add: mapStats_def)
  from a b c d e f show ?thesis by blast
qed

lemmas slot_defs =
  mapTypes_def mapAbilities_def mapStats_def type_slot_def ability_slot_def stat_slot_def named_def

theorem slot_ordering_witness:
  "mapTypes [type_slot 2 ''flying'', type_slot 1 ''fire'']
       = mapTypes [type_slot 1 ''fire'', type_slot 2 ''flying'']
   \<and> mapTypes [type_slot 2 ''flying'', type_slot 1 ''fire''] = [''fire'', ''flying'']
   \<and> mapAbilities [ability_slot 3 ''lightning-rod'' True, ability_slot 1 ''static'' False]
       = mapAbilities [ability_slot 1 ''static'' False, ability_slot 3 ''lightning-rod'' True]
   \<and> mapAbilities [ability_slot 3 ''lightning-rod'' True, ability_slot 1 ''static'' False]
       = [(''static'', False), (''lightning-rod'', True)]
   \<and> mapStats [stat_slot ''speed'' 90, stat_slot ''hp'' 35] ! 1 = (''hp'', 35)"
proof -
  have h1: "mset [type_slot 2 ''flying'', type_slot 1 ''fire'']
          = mset [type_slot 1 ''fire'', type_slot 2 ''flying'']
        \<and> inj_on ts_slot (set [type_slot 2 ''flying'', type_slot 1 ''fire''])"
    by (simp add: type_slot_def)
  have h2: "mset [ability_slot 3 ''lightning-rod'' True, ability_slot 1 ''static'' False]
          = mset [ability_slot 1 ''static'' False, ability_slot 3 ''lightning-rod'' True]
        \<and> inj_on ab_slot (set [ability_slot 3 ''lightning-rod'' True, ability_slot 1 ''static'' False])"
    by (simp add: ability_slot_def)
  have h3: "(1::nat) < length [stat_slot ''speed'' 90, stat_slot ''hp'' 35]" by simp
  note inst = slot_ordering [of "[type_slot 2 ''flying'', type_slot 1 ''fire'']"
      "[type_slot 1 ''fire'', type_slot 2 ''flying'']"
      "[ability_slot 3 ''lightning-rod'' True, ability_slot 1 ''static'' False]"
      "[ability_slot 1 ''static'' False, ability_slot 3 ''lightning-rod'' True]"
      "[stat_slot ''speed'' 90, stat_slot ''hp'' 35]"]
  have c1: "mapTypes [type_slot 2 ''flying'', type_slot 1 ''fire'']
       = mapTypes [type_slot 1 ''fire'', type_slot 2 ''flying'']"
    using inst h1 by blast
  have c2: "mapAbilities [ability_slot 3 ''lightning-rod'' True, ability_slot 1 ''static'' False]
       = mapAbilities [ability_slot 1 ''static'' False, ability_slot 3 ''lightning-rod'' True]"
    using inst h2 by blast
  have c3: "mapStats [stat_slot ''speed'' 90, stat_slot ''hp'' 35] ! 1
       = (res_name (stat ([stat_slot ''speed'' 90, stat_slot ''hp'' 35] ! 1)),
          base_stat ([stat_slot ''speed'' 90, stat_slot ''hp'' 35] ! 1))"
    using inst h3 by blast
  have v1: "mapTypes [type_slot 1 ''fire'', type_slot 2 ''flying''] = [''fire'', ''flying'']"
    by (simp add: slot_defs)
  have v2: "mapAbilities [ability_slot 1 ''static'' False, ability_slot 3 ''lightning-rod'' True]
       = [(''static'', False), (''lightning-rod'', True)]"
    by (simp add: slot_defs)
  from c1 c2 c3 v1 v2 show ?thesis by (simp add: stat_slot_def named_def)
qed

subsection \<open>English flavor text\<close>

lemma find_first_match:
  "\<forall>x \<in> set before. \<not> P x \<Longrightarrow> P y \<Longrightarrow> find P (before @ y # after) = Some y"
  by (induction before) auto

text \<open>
  Claim C9. For every species record, \<open>extractEnglishFlavor\<close> is absent exactly
  when no flavor-text entry has the language tag \<open>en\<close>; otherwise it is the
  text of the first such entry with every form feed, line feed and carriage
  return replaced by one space and every other character unchanged, so the
  length is unchanged too. The text made of \<open>Abc\<close>, a form feed, \<open>def\<close> and a
  line feed is sanitized to \<open>Abc def \<close> (with a trailing space).
\<close>

theorem extractEnglishFlavor_first_english:
  "(extractEnglishFlavor species = None
      \<longleftrightarrow> (\<forall>entry \<in> set (sp_flavor_text_entries species). res_name (ft_language entry) \<noteq> ''en''))
   \<and> (sp_flavor_text_entries species = before @ entry # after
        \<and> (\<forall>x \<in> set before. res_name (ft_language x) \<noteq> ''en'')
        \<and> res_name (ft_language entry) = ''en''
      \<longrightarrow> (\<exists>t. extractEnglishFlavor species = Some t
             \<and> length t = length (flavor_text entry)
             \<and> (\<forall>i < length t.
                   t ! i = (if flavor_text entry ! i \<in> {CHR 0x0C, CHR 0x0A, CHR 0x0D}
                            then CHR '' '' else flavor_text entry ! i))))
   \<and> sanitizeFlavorText (Some (''Abc'' @ [CHR 0x0C] @ ''def'' @ [CHR 0x0A])) = Some ''Abc def ''"
proof -
  let ?en = "\<lambda>x. res_name (ft_language x) = ''en''"
  have a: "extractEnglishFlavor species = None
      \<longleftrightarrow> (\<forall>entry \<in> set (sp_flavor_text_entries species). res_name (ft_language entry) \<noteq> ''en'')"
    by (auto simp: extractEnglishFlavor_def sanitizeFlavorText_def find_None_iff)
  have b: "\<exists>t. extractEnglishFlavor species = Some t
             \<and> length t = length (flavor_text entry)
             \<and> (\<forall>i < length t.
                   t ! i = (if flavor_text entry ! i \<in> {CHR 0x0C, CHR 0x0A, CHR 0x0D}
                            then CHR '' '' else flavor_text entry ! i))"
    if h: "sp_flavor_text_entries species = before @ entry # after"
      "\<forall>x \<in> set before. res_name (ft_language x) \<noteq> ''en''"
      "res_name (ft_language entry) = ''en''"
  proof -
    have "find ?en (sp_flavor_text_entries species) = Some entry"
      using h find_first_match [of before ?en entry after] by simp
    then have "extractEnglishFlavor species = sanitizeFlavorText (Some (flavor_text entry))"
      by (simp add: extractEnglishFlavor_def)
    then show ?thesis
      by (simp add: sanitizeFlavorText_def)
  qed
  have c: "sanitizeFlavorText (Some (''Abc'' @ [CHR 0x0C] @ ''def'' @ [CHR 0x0A])) = Some ''Abc def ''"
    by (simp add: sanitizeFlavorText_def)
  from a b c show ?thesis by blast
qed

theorem extractEnglishFlavor_first_english_witness:
  "extractEnglishFlavor
      (pikachu_species [flavor_entry ''ja'' ''Denki'',
                        flavor_entry ''en'' (''Abc'' @ [CHR 0x0C] @ ''def'' @ [CHR 0x0A]),
                        flavor_entry ''en'' ''Later'']) = Some ''Abc def ''
   \<and> extractEnglishFlavor (pikachu_species [flavor_entry ''ja'' ''Denki'']) = None"
proof -
  let ?sp = "pikachu_species [flavor_entry ''ja'' ''Denki'',
                        flavor_entry ''en'' (''Abc'' @ [CHR 0x0C] @ ''def'' @ [CHR 0x0A]),
                        flavor_entry ''en'' ''Later'']"
  let ?e = "flavor_entry ''en'' (''Abc'' @ [CHR 0x0C] @ ''def'' @ [CHR 0x0A])"
  have h: "sp_flavor_text_entries ?sp = [flavor_entry ''ja'' ''Denki''] @ ?e # [flavor_entry ''en'' ''Later'']
        \<and> (\<forall>x \<in> set [flavor_entry ''ja'' ''Denki'']. res_name (ft_language x) \<noteq> ''en'')
        \<and> res_name (ft_language ?e) = ''en''"
    by (simp add: pikachu_species_def flavor_entry_def named_def)
  obtain t where t: "extractEnglishFlavor ?sp = Some t" "length t = length (flavor_text ?e)"
    "\<forall>i < length t. t ! i = (if flavor_text ?e ! i \<in> {CHR 0x0C, CHR 0x0A, CHR 0x0D}
                            then CHR '' '' else flavor_text ?e ! i)"
    using extractEnglishFlavor_first_english
      [of ?sp "[flavor_entry ''ja'' ''Denki'']" ?e "[flavor_entry ''en'' ''Later'']"] h
    by blast
  have "t = ''Abc def ''"
    using t(2,3) by (simp add: list_eq_iff_nth_eq flavor_entry_def nth_Cons' All_less_Suc)
  with t(1) have c1: "extractEnglishFlavor ?sp = Some ''Abc def ''" by simp
  have "\<forall>entry \<in> set (sp_flavor_text_entries (pikachu_species [flavor_entry ''ja'' ''Denki''])).
          res_name (ft_language entry) \<noteq> ''en''"
    by (simp add: pikachu_species_def flavor_entry_def named_def)
  then have c2: "extractEnglishFlavor (pikachu_species [flavor_entry ''ja'' ''Denki'']) = None"
    using extractEnglishFlavor_first_english
      [of "pikachu_species [flavor_entry ''ja'' ''Denki'']" "[]" "flavor_entry ''ja'' ''Denki''" "[]"]
    by blast
  from c1 c2 show ?thesis by simp
qed

section \<open>Transport and cache: verified properties\<close>

subsection \<open>One call, by cases\<close>

lemma getCached_fresh:
  assumes "fresh e w (cacheKey url ps) (ttl_of ttl_arg)"
  shows "\<exists>c. cache w (cacheKey url ps) = Some c
           \<and> getCached e url ps ttl_arg w = (Inr (data c), w\<lparr>ticks := Suc (ticks w)\<rparr>)"
  using assms
  by (auto simp: fresh_def getCached_def getCached_start_def getCached_finish_def Let_def
      split: option.splits)

lemma getCached_stale:
  assumes "\<not> fresh e w (cacheKey url ps) (ttl_of ttl_arg)"
  shows "getCached e url ps ttl_arg w =
     (case net e (length (netlog w)) (url, ps) of
        Inl err \<Rightarrow> (Inl err, issued url ps w)
      | Inr d \<Rightarrow>
          (Inr d,
           (issued url ps w)
             \<lparr>cache := (cache w)(cacheKey url ps \<mapsto>
                          \<lparr>timestamp = clock e (ticks (issued url ps w)), data = d\<rparr>),
               ticks := Suc (ticks (issued url ps w))\<rparr>))"
  using assms
  by (auto simp: fresh_def getCached_def getCached_start_def getCached_finish_def Let_def issued_def
      split: option.splits sum.splits)

text \<open>
  Claim C3. For every endpoint, parameter object and time-to-live (the default
  of five minutes when omitted), with \<open>key\<close> the cache key of the call:
  if the cache holds an entry under \<open>key\<close> whose age at the clock reading of
  the call is below the time-to-live, \<open>getCached\<close> returns that entry's payload
  and leaves the request log and the cache as they were (no network call).
  Otherwise it hands exactly one request to the network, and when the response
  arrives with payload \<open>d\<close> it returns \<open>d\<close> and stores \<open>d\<close> under \<open>key\<close>,
  stamped with the clock reading taken at that moment (the last reading the
  call made). Hence an identical second call made while the stored entry is
  still fresh returns the same payload without a network call, and one made
  after it has expired hands exactly one new request to the network.
\<close>

theorem getCached_hit_or_miss:
  fixes e :: "'p env" and url :: string and ps :: "params option"
    and ttl_arg :: "int option" and w :: "'p world"
  defines "key \<equiv> cacheKey url ps"
    and "ttl \<equiv> ttl_of ttl_arg"
    and "r \<equiv> fst (getCached e url ps ttl_arg w)"
    and "w' \<equiv> snd (getCached e url ps ttl_arg w)"
  defines "r2 \<equiv> fst (getCached e url ps ttl_arg w')"
    and "w2 \<equiv> snd (getCached e url ps ttl_arg w')"
  shows
  "(fresh e w key ttl \<longrightarrow>
      (\<exists>c. cache w key = Some c \<and> r = Inr (data c))
      \<and> netlog w' = netlog w \<and> cache w' = cache w)
   \<and> (\<not> fresh e w key ttl \<longrightarrow>
      netlog w' = netlog w @ [(url, ps)]
      \<and> (\<forall>d. net e (length (netlog w)) (url, ps) = Inr d \<longrightarrow>
            r = Inr d
            \<and> cache w' = (cache w)(key \<mapsto> \<lparr>timestamp = clock e (ticks w' - 1), data = d\<rparr>)))
   \<and> (\<forall>d. r = Inr d \<longrightarrow>
         (fresh e w' key ttl \<longrightarrow> r2 = Inr d \<and> netlog w2 = netlog w')
         \<and> (\<not> fresh e w' key ttl \<longrightarrow> netlog w2 = netlog w' @ [(url, ps)]))"
proof -
  have hit: "(\<exists>c. cache w0 key = Some c \<and> fst (getCached e url ps ttl_arg w0) = Inr (data c))
      \<and> netlog (snd (getCached e url ps ttl_arg w0)) = netlog w0
      \<and> cache (snd (getCached e url ps ttl_arg w0)) = cache w0"
    if "fresh e w0 key ttl" for w0 :: "'p world"
    using getCached_fresh [of e w0 url ps ttl_arg] that
    by (auto simp: key_def ttl_def)
  have miss_log: "netlog (snd (getCached e url ps ttl_arg w0)) = netlog w0 @ [(url, ps)]"
    if "\<not> fresh e w0 key ttl" for w0 :: "'p world"
    using getCached_stale [of e w0 url ps ttl_arg] that
    by (auto simp: key_def ttl_def issued_def split: sum.splits)
  have miss_store: "r = Inr d
      \<and> cache w' = (cache w)(key \<mapsto> \<lparr>timestamp = clock e (ticks w' - 1), data = d\<rparr>)"
    if "\<not> fresh e w key ttl" "net e (length (netlog w)) (url, ps) = Inr d" for d
    using getCached_stale [of e w url ps ttl_arg] that
    by (simp add: key_def ttl_def r_def w'_def)
  have kept: "\<exists>c. cache w' key = Some c \<and> data c = d" if "r = Inr d" for d
  proof (cases "fresh e w key ttl")
    case True
    with hit [of w] that show ?thesis by (auto simp: r_def w'_def)
  next
    case False
    with getCached_stale [of e w url ps ttl_arg] that show ?thesis
      by (auto simp: key_def ttl_def r_def w'_def split: sum.splits)
  qed
  have again: "r2 = Inr d \<and> netlog w2 = netlog w'" if "r = Inr d" "fresh e w' key ttl" for d
    using kept [OF that(1)] hit [OF that(2)] by (auto simp: r2_def w2_def)
  from hit [of w] miss_log [of w] miss_store miss_log [of w'] again
  show ?thesis
    unfolding r_def [symmetric] w'_def [symmetric] r2_def [symmetric] w2_def [symmetric]
    by blast
qed

theorem getCached_hit_or_miss_witness:
  "\<not> fresh sample_env empty_world (cacheKey ''/pokemon/pikachu'' None) (ttl_of None)
   \<and> fst (getCached sample_env ''/pokemon/pikachu'' None None empty_world)
        = Inr (PokemonPayload sample_pikachu)
   \<and> netlog (snd (getCached sample_env ''/pokemon/pikachu'' None None empty_world))
        = [(''/pokemon/pikachu'', None)]
   \<and> fresh sample_env (snd (getCached sample_env ''/pokemon/pikachu'' None None empty_world))
        (cacheKey ''/pokemon/pikachu'' None) (ttl_of None)
   \<and> fst (getCached sample_env ''/pokemon/pikachu'' None None
            (snd (getCached sample_env ''/pokemon/pikachu'' None None empty_world)))
        = Inr (PokemonPayload sample_pikachu)
   \<and> netlog (snd (getCached sample_env ''/pokemon/pikachu'' None None
            (snd (getCached sample_env ''/pokemon/pikachu'' None None empty_world))))
        = [(''/pokemon/pikachu'', None)]
   \<and> \<not> fresh sample_env (snd (getCached sample_env ''/pokemon/pikachu'' None (Some 500) empty_world))
        (cacheKey ''/pokemon/pikachu'' None) (ttl_of (Some 500))
   \<and> netlog (snd (getCached sample_env ''/pokemon/pikachu'' None (Some 500)
            (snd (getCached sample_env ''/pokemon/pikachu'' None (Some 500) empty_world))))
        = [(''/pokemon/pikachu'', None), (''/pokemon/pikachu'', None)]"
proof -
  let ?u = "''/pokemon/pikachu''"
  let ?d = "PokemonPayload sample_pikachu"
  have stale: "\<not> fresh sample_env empty_world (cacheKey ?u None) t" for t
    by (simp add: fresh_def empty_world_def)
  have resp: "net sample_env (length (netlog empty_world)) (?u, None) = Inr ?d"
    by (simp add: sample_env_def sample_net_def)
  have log0: "netlog empty_world = []"
    by (simp add: empty_world_def)
  note first = getCached_hit_or_miss [of sample_env empty_world ?u None None]
  note short = getCached_hit_or_miss [of sample_env empty_world ?u None "Some 500"]
  have r1: "fst (getCached sample_env ?u None None empty_world) = Inr ?d"
    using first stale [of "ttl_of None"] resp by blast
  have l1: "netlog (snd (getCached sample_env ?u None None empty_world)) = [(?u, None)]"
    using first stale [of "ttl_of None"] log0 by simp
  have f1: "fresh sample_env (snd (getCached sample_env ?u None None empty_world))
        (cacheKey ?u None) (ttl_of None)"
    using getCached_stale [OF stale [of "ttl_of None"]] resp
    by (simp add: fresh_def issued_def empty_world_def ttl_of_def DEFAULT_TTL_def sample_env_def)
  have r2: "fst (getCached sample_env ?u None None
            (snd (getCached sample_env ?u None None empty_world))) = Inr ?d"
    using first r1 f1 by blast
  have l2: "netlog (snd (getCached sample_env ?u None None
            (snd (getCached sample_env ?u None None empty_world)))) = [(?u, None)]"
    using first r1 f1 l1 by simp
  have r3: "fst (getCached sample_env ?u None (Some 500) empty_world) = Inr ?d"
    using short stale [of "ttl_of (Some 500)"] resp by blast
  have l3: "netlog (snd (getCached sample_env ?u None (Some 500) empty_world)) = [(?u, None)]"
    using short stale [of "ttl_of (Some 500)"] log0 by simp
  have f3: "\<not> fresh sample_env (snd (getCached sample_env ?u None (Some 500) empty_world))
        (cacheKey ?u None) (ttl_of (Some 500))"
    using getCached_stale [OF stale [of "ttl_of (Some 500)"]] resp
    by (simp add: fresh_def issued_def empty_world_def ttl_of_def sample_env_def)
  have l4: "netlog (snd (getCached sample_env ?u None (Some 500)
            (snd (getCached sample_env ?u None (Some 500) empty_world))))
        = [(?u, None), (?u, None)]"
    using short r3 f3 l3 by simp
  from stale [of "ttl_of None"] r1 l1 f1 r2 l2 f3 l4 show ?thesis by blast
qed

text \<open>
  Claim C7. For every call of \<open>getCached\<close>: if the call goes to the network
  and the request fails with \<open>err\<close>, the call fails with that same \<open>err\<close> and
  the cache table is the one from before the call; conversely a call fails
  only in this way, so no failing call adds or overwrites an entry.
\<close>

theorem getCached_failure:
  fixes e :: "'p env" and url :: string and ps :: "params option"
    and ttl_arg :: "int option" and w :: "'p world"
  defines "key \<equiv> cacheKey url ps"
    and "ttl \<equiv> ttl_of ttl_arg"
    and "r \<equiv> fst (getCached e url ps ttl_arg w)"
    and "w' \<equiv> snd (getCached e url ps ttl_arg w)"
  shows
  "(\<not> fresh e w key ttl \<and> net e (length (netlog w)) (url, ps) = Inl err
      \<longrightarrow> r = Inl err \<and> cache w' = cache w)
   \<and> (r = Inl err
      \<longrightarrow> \<not> fresh e w key ttl \<and> net e (length (netlog w)) (url, ps) = Inl err
          \<and> cache w' = cache w)"
proof -
  have a: "r = Inl err \<and> cache w' = cache w"
    if "\<not> fresh e w key ttl" "net e (length (netlog w)) (url, ps) = Inl err"
    using getCached_stale [of e w url ps ttl_arg] that
    by (simp add: key_def ttl_def r_def w'_def issued_def)
  have b: "\<not> fresh e w key ttl \<and> net e (length (netlog w)) (url, ps) = Inl err \<and> cache w' = cache w"
    if "r = Inl err"
  proof (cases "fresh e w key ttl")
    case True
    with getCached_fresh [of e w url ps ttl_arg] that show ?thesis
      by (auto simp: key_def ttl_def r_def)
  next
    case False
    with getCached_stale [of e w url ps ttl_arg] that show ?thesis
      by (auto simp: key_def ttl_def r_def w'_def issued_def split: sum.splits)
  qed
  from a b show ?thesis by blast
qed


theorem getCached_failure_witness:
  "\<not> fresh offline_env empty_world (cacheKey ''/pokemon/pikachu'' None) (ttl_of None)
   \<and> net offline_env (length (netlog empty_world)) (''/pokemon/pikachu'', None)
        = Inl (ErrorObj ''Network Error'')
   \<and> fst (getCached offline_env ''/pokemon/pikachu'' None None empty_world)
        = Inl (ErrorObj ''Network Error'')
   \<and> cache (snd (getCached offline_env ''/pokemon/pikachu'' None None empty_world))
        = cache empty_world"
proof -
  have h1: "\<not> fresh offline_env empty_world (cacheKey ''/pokemon/pikachu'' None) (ttl_of None)"
    by (simp add: fresh_def empty_world_def)
  have h2: "net offline_env (length (netlog empty_world)) (''/pokemon/pikachu'', None)
        = Inl (ErrorObj ''Network Error'')"
    by (simp add: offline_env_def)
  from getCached_failure [of offline_env empty_world "''/pokemon/pikachu''" None None
      "ErrorObj ''Network Error''"] h1 h2
  show ?thesis by blast
qed

section \<open>Aggregate store: verified properties\<close>

subsection \<open>A list load that fails\<close>

lemma cacheKey_None:
  "cacheKey url None = ''{'' @ json_quote ''url'' @ '':'' @ json_quote url @ ''}''"
  by (simp add: cacheKey_def own_entries_def is_array_index_def is_digit_def)

lemma index_key_differs:
  "cacheKey ''/pokemon'' (Some ps) \<noteq> cacheKey (pokemon_url (Name n)) None"
  by (simp add: cacheKey_outer cacheKey_None pokemon_url_def show_name_or_id_def
        json_quote_def json_escape_def)

lemma promise_all_Inl_iff:
  "isl (promise_all settled) \<longleftrightarrow> list_ex (\<lambda>ir. isl (snd ir)) settled"
proof (cases "find (\<lambda>ir. isl (snd ir)) settled")
  case None
  then have "\<not> list_ex (\<lambda>ir. isl (snd ir)) settled"
    by (auto simp: find_None_iff list_ex_iff)
  then show ?thesis
    by (simp add: promise_all_def None)
next
  case (Some ir)
  then have found: "isl (snd ir)" "ir \<in> set settled"
    by (auto simp: find_Some_iff)
  then obtain i err where ir: "ir = (i, Inl err)"
    by (cases ir; cases "snd ir") auto
  from found have "list_ex (\<lambda>ir. isl (snd ir)) settled"
    unfolding list_ex_iff by blast
  moreover from Some ir have "promise_all settled = Inl err"
    by (simp add: promise_all_def)
  ultimately show ?thesis by simp
qed

lemma fetchPokemonSummaries_fails_iff:
  "isl (fst (fetchPokemonSummaries e names w)) \<longleftrightarrow> list_ex isl (summary_results e names w)"
  by (simp add: fetchPokemonSummaries_def summary_results_def promise_all_Inl_iff
        list_ex_iff id_def split: prod.splits)

lemma some_fetch_fails_iff:
  "some_fetch_fails e limit offset w \<longleftrightarrow> isl (fst (loadList_fetch e limit offset w))"
proof (cases "fetchPokemonList e (Some limit) (Some offset) w")
  case (Pair r w1)
  show ?thesis
  proof (cases r)
    case (Inl err)
    with Pair show ?thesis by (simp add: some_fetch_fails_def loadList_fetch_def)
  next
    case (Inr response)
    obtain r2 w2 where f: "fetchPokemonSummaries e (map res_name (plr_results response)) w1 = (r2, w2)"
      by (cases "fetchPokemonSummaries e (map res_name (plr_results response)) w1")
    have "isl r2 \<longleftrightarrow> list_ex isl (summary_results e (map res_name (plr_results response)) w1)"
      using fetchPokemonSummaries_fails_iff [of e "map res_name (plr_results response)" w1] f
      by simp
    with Pair Inr f show ?thesis
      by (cases r2) (simp_all add: some_fetch_fails_def loadList_fetch_def)
  qed
qed

lemma loadList_guard:
  "captured \<noteq> [] \<Longrightarrow> loadList e captured limit_arg offset_arg s w = ([], w)"
  by (simp add: loadList_def)

lemma loadList_failed:
  assumes "loadList_fetch e (arg_limit limit_arg) (arg_offset offset_arg) w = (Inl err, w1)"
  shows "loadList e [] limit_arg offset_arg s w =
    ([s\<lparr>isListLoading := True\<rparr>,
      s\<lparr>isListLoading := True, listError := None\<rparr>,
      s\<lparr>isListLoading := True, listError := None,
        listParams := \<lparr>lp_limit = arg_limit limit_arg, lp_offset = arg_offset offset_arg\<rparr>\<rparr>,
      s\<lparr>isListLoading := True, listError := Some (extractErrorMessage err),
        listParams := \<lparr>lp_limit = arg_limit limit_arg, lp_offset = arg_offset offset_arg\<rparr>\<rparr>,
      s\<lparr>isListLoading := False, listError := Some (extractErrorMessage err),
        listParams := \<lparr>lp_limit = arg_limit limit_arg, lp_offset = arg_offset offset_arg\<rparr>\<rparr>],
     w1)"
  using assms by (simp add: loadList_def arg_limit_def arg_offset_def Let_def)

lemma loadList_loaded:
  assumes "loadList_fetch e (arg_limit limit_arg) (arg_offset offset_arg) w
           = (Inr (response, summaries), w1)"
  shows "final_store s (fst (loadList e [] limit_arg offset_arg s w)) =
      s\<lparr>list := summaries, totalCount := plr_count response,
        isListLoading := False, listError := None,
        listParams := \<lparr>lp_limit = arg_limit limit_arg, lp_offset = arg_offset offset_arg\<rparr>,
        summariesById :=
          fold (\<lambda>summary next. next(sum_id summary \<mapsto> summary)) summaries (summariesById s)\<rparr>
    \<and> snd (loadList e [] limit_arg offset_arg s w) = w1"
  using assms by (simp add: loadList_def arg_limit_def arg_offset_def Let_def final_store_def)

text \<open>
  Claim C2, as amended. A \<open>loadList\<close> call that passes its guard (the list
  its callback captured is empty) ends with the loading flag false, whether its
  fetches succeed or fail. If a fetch of such a call fails (the index fetch,
  or the summary fetch of any returned name), then every store the call passes
  through, the last one included, holds the list, the total count, the summary
  map and the detail map it started with: no partly filled list is ever
  observable. The store after the call differs from the store before it in
  three slots only: the error slot holds the message extracted from the
  rejection that ended the fetches, the loading flag is false, and the
  list-parameters slot holds the requested limit and offset, which the call
  writes before it fetches.
\<close>

theorem loadList_failure_atomic:
  fixes e :: "payload env" and s :: store and w :: "payload world"
    and captured :: "PokemonSummary list" and limit_arg offset_arg :: "int option"
  defines "limit \<equiv> arg_limit limit_arg"
    and "offset \<equiv> arg_offset offset_arg"
    and "trace \<equiv> fst (loadList e captured limit_arg offset_arg s w)"
  shows
  "(captured = [] \<and> some_fetch_fails e limit offset w \<longrightarrow>
      (\<forall>s' \<in> set trace.
          list s' = list s \<and> totalCount s' = totalCount s
          \<and> summariesById s' = summariesById s \<and> detailsById s' = detailsById s)
      \<and> (\<exists>err. fst (loadList_fetch e limit offset w) = Inl err
            \<and> final_store s trace =
                s\<lparr>listError := Some (extractErrorMessage err),
                  listParams := \<lparr>lp_limit = limit, lp_offset = offset\<rparr>,
                  isListLoading := False\<rparr>))
   \<and> (captured = [] \<longrightarrow> isListLoading (final_store s trace) = False)"
proof -
  have failing: "(\<forall>s' \<in> set trace.
          list s' = list s \<and> totalCount s' = totalCount s
          \<and> summariesById s' = summariesById s \<and> detailsById s' = detailsById s)
      \<and> (\<exists>err. fst (loadList_fetch e limit offset w) = Inl err
            \<and> final_store s trace =
                s\<lparr>listError := Some (extractErrorMessage err),
                  listParams := \<lparr>lp_limit = limit, lp_offset = offset\<rparr>,
                  isListLoading := False\<rparr>)"
    if c: "captured = []" and fails: "some_fetch_fails e limit offset w"
  proof -
    from fails obtain err w1 where f: "loadList_fetch e limit offset w = (Inl err, w1)"
      by (cases "loadList_fetch e limit offset w")
         (auto simp: some_fetch_fails_iff isl_def)
    note run = loadList_failed [OF f [unfolded limit_def offset_def], of s]
    have frames: "\<forall>s' \<in> set trace.
         list s' = list s \<and> totalCount s' = totalCount s
         \<and> summariesById s' = summariesById s \<and> detailsById s' = detailsById s"
      unfolding trace_def c run by simp
    have final: "final_store s trace =
               s\<lparr>listError := Some (extractErrorMessage err),
                 listParams := \<lparr>lp_limit = limit, lp_offset = offset\<rparr>,
                 isListLoading := False\<rparr>"
      unfolding trace_def c run by (simp add: final_store_def limit_def offset_def)
    from frames final f show ?thesis by auto
  qed
  have cleared: "isListLoading (final_store s trace) = False" if c: "captured = []"
  proof (cases "loadList_fetch e limit offset w")
    case (Pair r w1)
    show ?thesis
    proof (cases r)
      case (Inl err)
      with Pair loadList_failed [of e limit_arg offset_arg w err w1 s]
      show ?thesis
        by (simp add: trace_def c limit_def offset_def final_store_def)
    next
      case (Inr loaded)
      obtain response summaries where "loaded = (response, summaries)"
        by (cases loaded)
      with Pair Inr loadList_loaded [of e limit_arg offset_arg w response summaries w1 s]
      show ?thesis
        by (simp add: trace_def c limit_def offset_def)
    qed
  qed
  from failing cleared show ?thesis by blast
qed

lemmas index_key_differs' = index_key_differs [symmetric]

lemmas transport_defs =
  loadList_fetch_def fetchPokemonList_def fetchPokemonSummaries_def getCached_def
  getCached_start_def getCached_finish_def as_list_def as_pokemon_def settle_order_def
  promise_all_def ttl_of_def Let_def pokemon_url_def show_name_or_id_def

lemma offline_fetch:
  "cache w = Map.empty \<Longrightarrow>
   loadList_fetch offline_env limit offset w =
     (Inl (ErrorObj ''Network Error''),
      w\<lparr>netlog := netlog w @ [(''/pokemon'', Some (list_params limit offset))]\<rparr>)"
  by (simp add: loadList_fetch_def fetchPokemonList_def getCached_def getCached_start_def
        getCached_finish_def as_list_def offline_env_def Let_def)

lemma sample_fetch:
  "fst (loadList_fetch sample_env limit offset empty_world)
     = Inr (sample_index, [mapToSummary sample_pikachu])"
  using index_key_differs' [of "''pikachu''" "list_params limit offset"]
  by (simp add: transport_defs sample_env_def sample_net_def empty_world_def
        sample_index_def named_def)

lemma flaky_fetch:
  "fst (loadList_fetch flaky_env limit offset empty_world)
     = Inl (ErrorObj ''timeout of 60000ms exceeded'')"
  using index_key_differs' [of "''pikachu''" "list_params limit offset"]
    index_key_differs' [of "''missingno''" "list_params limit offset"]
    index_key_differs' [of "''glitch''" "list_params limit offset"]
  by (simp add: transport_defs flaky_env_def flaky_net_def sample_net_def empty_world_def
        flaky_index_def named_def)

lemma flaky_summary_results:
  "\<exists>w1. fetchPokemonList flaky_env (Some limit) (Some offset) empty_world = (Inr flaky_index, w1)
     \<and> summary_results flaky_env (map res_name (plr_results flaky_index)) w1
         = [Inl (ErrorObj ''timeout of 60000ms exceeded''),
            Inr (mapToSummary sample_pikachu),
            Inl (ErrorObj ''Request failed with status code 404'')]"
  using index_key_differs' [of "''pikachu''" "list_params limit offset"]
    index_key_differs' [of "''missingno''" "list_params limit offset"]
    index_key_differs' [of "''glitch''" "list_params limit offset"]
  by (simp add: transport_defs summary_results_def flaky_env_def flaky_net_def sample_net_def
        empty_world_def flaky_index_def named_def)

text \<open>
  A load on the second sample catalog, from a store that already holds a
  summary and a detail: the index arrives, the summary of the second name
  arrives, the fetches of the first and the third name fail, and the timeout of
  the third is the rejection that arrives first. Its message is the one in the
  error slot; the summary that did arrive is in no store of the run.
\<close>

theorem loadList_failure_atomic_witness:
  "some_fetch_fails flaky_env (arg_limit (Some 20)) (arg_offset (Some 0)) empty_world
   \<and> list_all (\<lambda>s'. list s' = [] \<and> totalCount s' = 0
                    \<and> summariesById s' = [25 \<mapsto> mapToSummary sample_pikachu]
                    \<and> detailsById s' = [25 \<mapsto> mapToDetail sample_pikachu sample_species])
        (fst (loadList flaky_env [] (Some 20) (Some 0) visited_store empty_world))
   \<and> final_store visited_store (fst (loadList flaky_env [] (Some 20) (Some 0) visited_store empty_world))
        = visited_store\<lparr>listError := Some ''timeout of 60000ms exceeded'',
                         listParams := \<lparr>lp_limit = 20, lp_offset = 0\<rparr>,
                         isListLoading := False\<rparr>
   \<and> isListLoading (final_store initial_store
        (fst (loadList sample_env [] None None initial_store empty_world))) = False
   \<and> (\<exists>w1. fetchPokemonList flaky_env (Some 20) (Some 0) empty_world = (Inr flaky_index, w1)
          \<and> summary_results flaky_env (map res_name (plr_results flaky_index)) w1
              = [Inl (ErrorObj ''timeout of 60000ms exceeded''),
                 Inr (mapToSummary sample_pikachu),
                 Inl (ErrorObj ''Request failed with status code 404'')])"
proof -
  have h: "some_fetch_fails flaky_env (arg_limit (Some 20)) (arg_offset (Some 0)) empty_world"
    by (simp add: some_fetch_fails_iff flaky_fetch)
  note inst = loadList_failure_atomic [of "[]" flaky_env "Some 20" "Some 0" empty_world visited_store]
  from inst h have frames: "list_all (\<lambda>s'. list s' = [] \<and> totalCount s' = 0
                    \<and> summariesById s' = [25 \<mapsto> mapToSummary sample_pikachu]
                    \<and> detailsById s' = [25 \<mapsto> mapToDetail sample_pikachu sample_species])
        (fst (loadList flaky_env [] (Some 20) (Some 0) visited_store empty_world))"
    by (simp add: list_all_iff visited_store_def)
  from inst h obtain err where
    "fst (loadList_fetch flaky_env (arg_limit (Some 20)) (arg_offset (Some 0)) empty_world) = Inl err"
    and "final_store visited_store
           (fst (loadList flaky_env [] (Some 20) (Some 0) visited_store empty_world))
         = visited_store\<lparr>listError := Some (extractErrorMessage err),
             listParams := \<lparr>lp_limit = arg_limit (Some 20), lp_offset = arg_offset (Some 0)\<rparr>,
             isListLoading := False\<rparr>"
    by blast
  then have final:
    "final_store visited_store (fst (loadList flaky_env [] (Some 20) (Some 0) visited_store empty_world))
        = visited_store\<lparr>listError := Some ''timeout of 60000ms exceeded'',
                         listParams := \<lparr>lp_limit = 20, lp_offset = 0\<rparr>,
                         isListLoading := False\<rparr>"
    by (auto simp: flaky_fetch arg_limit_def arg_offset_def extractErrorMessage_def)
  have cleared: "isListLoading (final_store initial_store
        (fst (loadList sample_env [] None None initial_store empty_world))) = False"
    using loadList_failure_atomic [of "[]" sample_env None None empty_world initial_store]
    by blast
  from h frames final cleared flaky_summary_results [of 20 0] show ?thesis by blast
qed

text \<open>
  The claim as stated fails on "prior state is otherwise untouched": a failed
  \<^verbatim>\<open>loadList(20, 0)\<close> on the initial store leaves \<open>{limit: 20, offset: 0}\<close> in
  the list-parameters slot, which held \<open>{limit: 1000, offset: 0}\<close> before.
\<close>

theorem loadList_failure_touches_params:
  "list initial_store = []
   \<and> some_fetch_fails offline_env 20 0 empty_world
   \<and> listParams initial_store = \<lparr>lp_limit = 1000, lp_offset = 0\<rparr>
   \<and> listParams (final_store initial_store
        (fst (loadList offline_env (list initial_store) (Some 20) (Some 0) initial_store empty_world)))
      = \<lparr>lp_limit = 20, lp_offset = 0\<rparr>
   \<and> final_store initial_store
        (fst (loadList offline_env (list initial_store) (Some 20) (Some 0) initial_store empty_world))
      \<noteq> initial_store\<lparr>listError := Some ''Network Error'', isListLoading := False\<rparr>"
proof -
  have h1: "list initial_store = []"
    by (simp add: initial_store_def)
  have f: "loadList_fetch offline_env (arg_limit (Some 20)) (arg_offset (Some 0)) empty_world =
     (Inl (ErrorObj ''Network Error''),
      empty_world\<lparr>netlog := netlog empty_world @ [(''/pokemon'', Some (list_params 20 0))]\<rparr>)"
    unfolding arg_limit_def arg_offset_def option.case
    by (rule offline_fetch) (simp add: empty_world_def)
  have h2: "some_fetch_fails offline_env 20 0 empty_world"
    using f by (simp add: some_fetch_fails_iff arg_limit_def arg_offset_def)
  have run: "final_store initial_store
        (fst (loadList offline_env (list initial_store) (Some 20) (Some 0) initial_store empty_world))
      = initial_store\<lparr>isListLoading := False, listError := Some ''Network Error'',
          listParams := \<lparr>lp_limit = 20, lp_offset = 0\<rparr>\<rparr>"
    unfolding h1 loadList_failed [OF f]
    by (simp add: arg_limit_def arg_offset_def final_store_def extractErrorMessage_def)
  have p0: "listParams initial_store = \<lparr>lp_limit = 1000, lp_offset = 0\<rparr>"
    by (simp add: initial_store_def)
  have p1: "listParams (final_store initial_store
        (fst (loadList offline_env (list initial_store) (Some 20) (Some 0) initial_store empty_world)))
      = \<lparr>lp_limit = 20, lp_offset = 0\<rparr>"
    by (simp add: run)
  have ne: "final_store initial_store
        (fst (loadList offline_env (list initial_store) (Some 20) (Some 0) initial_store empty_world))
      \<noteq> initial_store\<lparr>listError := Some ''Network Error'', isListLoading := False\<rparr>"
  proof
    assume "final_store initial_store
        (fst (loadList offline_env (list initial_store) (Some 20) (Some 0) initial_store empty_world))
      = initial_store\<lparr>listError := Some ''Network Error'', isListLoading := False\<rparr>"
    then have "listParams (final_store initial_store
        (fst (loadList offline_env (list initial_store) (Some 20) (Some 0) initial_store empty_world)))
      = listParams (initial_store\<lparr>listError := Some ''Network Error'', isListLoading := False\<rparr>)"
      by simp
    with p1 p0 show False by simp
  qed
  from h1 h2 p0 p1 ne show ?thesis by simp
qed

subsection \<open>Default arguments of a list load\<close>

lemma getCached_start_netlog:
  "\<exists>rest. netlog (snd (getCached_start e url ps ttl_arg w)) = netlog w @ rest"
  by (simp add: getCached_start_def Let_def split: option.splits)

lemma start_all_netlog:
  "\<exists>rest. netlog (snd (start_all e urls w)) = netlog w @ rest"
proof (induction urls arbitrary: w)
  case Nil
  show ?case by simp
next
  case (Cons url urls)
  obtain p w1 where s1: "getCached_start e url None None w = (p, w1)"
    by (cases "getCached_start e url None None w")
  obtain r1 where r1: "netlog w1 = netlog w @ r1"
    using getCached_start_netlog [of e url None None w] s1 by auto
  obtain r2 where r2: "netlog (snd (start_all e urls w1)) = netlog w1 @ r2"
    using Cons.IH [of w1] by auto
  from s1 r1 r2 show ?case
    by (auto split: prod.splits)
qed

lemma getCached_finish_netlog:
  "netlog (snd (getCached_finish e p w)) = netlog w"
  by (simp add: getCached_finish_def split: pending.splits sum.splits)

lemma finish_all_netlog:
  "netlog (snd (finish_all e ips w)) = netlog w"
proof (induction ips arbitrary: w)
  case Nil
  show ?case by simp
next
  case (Cons ip ips)
  obtain r w1 where a: "getCached_finish e (snd ip) w = (r, w1)"
    by (cases "getCached_finish e (snd ip) w")
  obtain rs w2 where b: "finish_all e ips w1 = (rs, w2)"
    by (cases "finish_all e ips w1")
  from Cons.IH [of w1] getCached_finish_netlog [of e "snd ip" w] a b
  show ?case by simp
qed

lemma fetchPokemonSummaries_netlog:
  "\<exists>rest. netlog (snd (fetchPokemonSummaries e names w)) = netlog w @ rest"
proof -
  let ?urls = "map (\<lambda>n. pokemon_url (Name n)) names"
  obtain ps w1 where a: "start_all e ?urls w = (ps, w1)"
    by (cases "start_all e ?urls w")
  obtain rs w2 where b: "finish_all e (settle_order e ps) w1 = (rs, w2)"
    by (cases "finish_all e (settle_order e ps) w1")
  obtain rest where "netlog w1 = netlog w @ rest"
    using start_all_netlog [of e ?urls w] a by auto
  then show ?thesis
    using finish_all_netlog [of e "settle_order e ps" w1] a b
    by (simp add: fetchPokemonSummaries_def)
qed

lemma fetchPokemonList_fresh:
  assumes "fresh e w (cacheKey ''/pokemon'' (Some (list_params limit offset))) DEFAULT_TTL"
  shows "\<exists>entry. cache w (cacheKey ''/pokemon'' (Some (list_params limit offset))) = Some entry
     \<and> fst (fetchPokemonList e (Some limit) (Some offset) w) = as_list e (Inr (data entry))
     \<and> netlog (snd (fetchPokemonList e (Some limit) (Some offset) w)) = netlog w"
proof -
  from assms have "fresh e w (cacheKey ''/pokemon'' (Some (list_params limit offset))) (ttl_of None)"
    by (simp add: ttl_of_def)
  from getCached_fresh [OF this] show ?thesis
    by (auto simp: fetchPokemonList_def)
qed

lemma fetchPokemonList_stale:
  assumes "\<not> fresh e w (cacheKey ''/pokemon'' (Some (list_params limit offset))) DEFAULT_TTL"
  shows "netlog (snd (fetchPokemonList e (Some limit) (Some offset) w))
     = netlog w @ [(''/pokemon'', Some (list_params limit offset))]"
proof -
  from assms have "\<not> fresh e w (cacheKey ''/pokemon'' (Some (list_params limit offset))) (ttl_of None)"
    by (simp add: ttl_of_def)
  from getCached_stale [OF this] show ?thesis
    by (auto simp: fetchPokemonList_def issued_def split: sum.splits)
qed

lemma loadList_fetch_netlog:
  "\<exists>rest. netlog (snd (loadList_fetch e limit offset w)) =
     netlog (snd (fetchPokemonList e (Some limit) (Some offset) w)) @ rest"
proof (cases "fetchPokemonList e (Some limit) (Some offset) w")
  case (Pair r w1)
  show ?thesis
  proof (cases r)
    case (Inl err)
    with Pair show ?thesis by (simp add: loadList_fetch_def)
  next
    case (Inr response)
    obtain rest where
      "netlog (snd (fetchPokemonSummaries e (map res_name (plr_results response)) w1))
         = netlog w1 @ rest"
      using fetchPokemonSummaries_netlog by blast
    with Pair Inr show ?thesis
      by (auto simp: loadList_fetch_def split: prod.splits sum.splits)
  qed
qed

lemma loadList_snd:
  "snd (loadList e [] limit_arg offset_arg s w)
     = snd (loadList_fetch e (arg_limit limit_arg) (arg_offset offset_arg) w)"
  by (simp add: loadList_def arg_limit_def arg_offset_def Let_def split: prod.splits sum.splits)

lemma loadList_params:
  "listParams (final_store s (fst (loadList e [] limit_arg offset_arg s w)))
     = \<lparr>lp_limit = arg_limit limit_arg, lp_offset = arg_offset offset_arg\<rparr>"
  by (simp add: loadList_def arg_limit_def arg_offset_def Let_def final_store_def
      split: prod.splits sum.splits)

text \<open>
  Claim C10, as amended. The store starts with the list parameters
  \<open>{limit: 1000, offset: 0}\<close>. A \<open>loadList\<close> call with both arguments omitted
  is the call with limit 1000 and offset 0 (and so is \<open>fetchPokemonList\<close> with
  its arguments omitted). When such a call passes the guard (the list its
  callback captured is empty), it records exactly these values as the last list
  parameters and fetches the index under the key of limit 1000 and offset 0: if
  the cache holds no fresh entry under that key, the next request it hands to
  the network is \<^verbatim>\<open>GET /pokemon\<close> with \<open>limit = 1000\<close> and \<open>offset = 0\<close>; if it
  does, the index is the payload of that entry and the index fetch sends no
  request. When the guard stops the call (the captured list is not empty), it
  records nothing and requests nothing: the store and the world stay as they
  are.
\<close>

theorem loadList_defaults:
  fixes e :: "payload env" and s :: store and w :: "payload world"
    and captured :: "PokemonSummary list"
  defines "index_request \<equiv> (''/pokemon'', Some [(''limit'', JNum 1000), (''offset'', JNum 0)])"
    and "index_key \<equiv> cacheKey ''/pokemon'' (Some [(''limit'', JNum 1000), (''offset'', JNum 0)])"
  shows
  "listParams initial_store = \<lparr>lp_limit = 1000, lp_offset = 0\<rparr>
   \<and> loadList e captured None None s w = loadList e captured (Some 1000) (Some 0) s w
   \<and> fetchPokemonList e None None w = fetchPokemonList e (Some 1000) (Some 0) w
   \<and> (captured = [] \<longrightarrow>
        listParams (final_store s (fst (loadList e captured None None s w)))
          = \<lparr>lp_limit = 1000, lp_offset = 0\<rparr>
        \<and> (\<not> fresh e w index_key DEFAULT_TTL \<longrightarrow>
             (\<exists>rest. netlog (snd (loadList e captured None None s w))
                       = netlog w @ index_request # rest))
        \<and> (fresh e w index_key DEFAULT_TTL \<longrightarrow>
             (\<exists>entry. cache w index_key = Some entry
                \<and> fst (fetchPokemonList e None None w) = as_list e (Inr (data entry))
                \<and> netlog (snd (fetchPokemonList e None None w)) = netlog w)))
   \<and> (captured \<noteq> [] \<longrightarrow>
        loadList e captured None None s w = ([], w)
        \<and> final_store s (fst (loadList e captured None None s w)) = s)"
proof -
  have a: "listParams initial_store = \<lparr>lp_limit = 1000, lp_offset = 0\<rparr>"
    by (simp add: initial_store_def)
  have b: "loadList e captured None None s w = loadList e captured (Some 1000) (Some 0) s w"
    by (simp add: loadList_def)
  have c: "fetchPokemonList e None None w = fetchPokemonList e (Some 1000) (Some 0) w"
    by (simp add: fetchPokemonList_def)
  have d: "listParams (final_store s (fst (loadList e captured None None s w)))
          = \<lparr>lp_limit = 1000, lp_offset = 0\<rparr>" if "captured = []"
    using loadList_params [of s e None None w] that by (simp add: arg_limit_def arg_offset_def)
  have f: "\<exists>rest. netlog (snd (loadList e captured None None s w)) = netlog w @ index_request # rest"
    if "captured = []" "\<not> fresh e w index_key DEFAULT_TTL"
  proof -
    have "netlog (snd (fetchPokemonList e (Some 1000) (Some 0) w)) = netlog w @ [index_request]"
      using that(2) fetchPokemonList_stale [of e w 1000 0]
      by (simp add: index_request_def index_key_def list_params_def)
    moreover obtain rest where "netlog (snd (loadList_fetch e 1000 0 w)) =
       netlog (snd (fetchPokemonList e (Some 1000) (Some 0) w)) @ rest"
      using loadList_fetch_netlog by blast
    ultimately show ?thesis
      using loadList_snd [of e None None s w] that(1)
      by (simp add: arg_limit_def arg_offset_def)
  qed
  have g: "\<exists>entry. cache w index_key = Some entry
                \<and> fst (fetchPokemonList e None None w) = as_list e (Inr (data entry))
                \<and> netlog (snd (fetchPokemonList e None None w)) = netlog w"
    if "fresh e w index_key DEFAULT_TTL"
    using that fetchPokemonList_fresh [of e w 1000 0]
    unfolding c by (simp add: index_key_def list_params_def)
  have h: "loadList e captured None None s w = ([], w)
        \<and> final_store s (fst (loadList e captured None None s w)) = s" if "captured \<noteq> []"
    using loadList_guard [OF that, of e None None s w] by (simp add: final_store_def)
  from a b c d f g h show ?thesis by blast
qed

lemma sample_fetch_world:
  "loadList_fetch sample_env limit offset empty_world =
     (Inr (sample_index, [mapToSummary sample_pikachu]),
      \<lparr>cache = [cacheKey ''/pokemon'' (Some (list_params limit offset))
                   \<mapsto> \<lparr>timestamp = 0, data = ListPayload sample_index\<rparr>,
                 cacheKey ''/pokemon/pikachu'' None
                   \<mapsto> \<lparr>timestamp = 1000, data = PokemonPayload sample_pikachu\<rparr>],
       netlog = [(''/pokemon'', Some (list_params limit offset)), (''/pokemon/pikachu'', None)],
       ticks = 2\<rparr>)"
  using index_key_differs' [of "''pikachu''" "list_params limit offset"]
  by (simp add: transport_defs sample_env_def sample_net_def empty_world_def
        sample_index_def named_def)

lemma initial_list: "list initial_store = []"
  by (simp add: initial_store_def)

lemma loaded_run:
  "loaded_store =
     initial_store\<lparr>list := [mapToSummary sample_pikachu], totalCount := 1302,
       summariesById := [25 \<mapsto> mapToSummary sample_pikachu]\<rparr>"
  "loaded_world =
     \<lparr>cache = [cacheKey ''/pokemon'' (Some (list_params 1000 0))
                   \<mapsto> \<lparr>timestamp = 0, data = ListPayload sample_index\<rparr>,
                 cacheKey ''/pokemon/pikachu'' None
                   \<mapsto> \<lparr>timestamp = 1000, data = PokemonPayload sample_pikachu\<rparr>],
       netlog = [(''/pokemon'', Some (list_params 1000 0)), (''/pokemon/pikachu'', None)],
       ticks = 2\<rparr>"
  using loadList_loaded [of sample_env None None empty_world, unfolded arg_limit_def arg_offset_def option.case,
      OF sample_fetch_world, of initial_store]
  by (simp_all add: loaded_store_def loaded_world_def initial_list initial_store_def
        sample_index_def mapToSummary_def sample_pikachu_def pikachu_def)

lemma paged_run:
  "paged_store =
     initial_store\<lparr>list := [mapToSummary sample_pikachu], totalCount := 1302,
       listParams := \<lparr>lp_limit = 5, lp_offset = 7\<rparr>,
       summariesById := [25 \<mapsto> mapToSummary sample_pikachu]\<rparr>"
  "paged_world =
     \<lparr>cache = [cacheKey ''/pokemon'' (Some (list_params 5 7))
                   \<mapsto> \<lparr>timestamp = 0, data = ListPayload sample_index\<rparr>,
                 cacheKey ''/pokemon/pikachu'' None
                   \<mapsto> \<lparr>timestamp = 1000, data = PokemonPayload sample_pikachu\<rparr>],
       netlog = [(''/pokemon'', Some (list_params 5 7)), (''/pokemon/pikachu'', None)],
       ticks = 2\<rparr>"
  using loadList_loaded [of sample_env "Some 5" "Some 7" empty_world,
      unfolded arg_limit_def arg_offset_def option.case, OF sample_fetch_world, of initial_store]
  by (simp_all add: paged_store_def paged_world_def initial_list initial_store_def
        sample_index_def mapToSummary_def sample_pikachu_def pikachu_def)

lemma failed_run:
  "failed_store = initial_store\<lparr>listError := Some ''Network Error''\<rparr>"
  "failed_world =
     \<lparr>cache = Map.empty, netlog = [(''/pokemon'', Some (list_params 1000 0))], ticks = 0\<rparr>"
  using loadList_failed [of offline_env None None empty_world,
      unfolded arg_limit_def arg_offset_def option.case,
      OF offline_fetch [of empty_world 1000 0], of initial_store]
  by (simp_all add: failed_store_def failed_world_def initial_list initial_store_def
        empty_world_def final_store_def extractErrorMessage_def)

theorem loadList_defaults_witness:
  "listParams visited_store = \<lparr>lp_limit = 5, lp_offset = 7\<rparr>
   \<and> \<not> fresh sample_env empty_world
         (cacheKey ''/pokemon'' (Some [(''limit'', JNum 1000), (''offset'', JNum 0)])) DEFAULT_TTL
   \<and> listParams (final_store visited_store (fst (loadList sample_env [] None None visited_store empty_world)))
        = \<lparr>lp_limit = 1000, lp_offset = 0\<rparr>
   \<and> (\<exists>rest. netlog (snd (loadList sample_env [] None None visited_store empty_world))
         = (''/pokemon'', Some [(''limit'', JNum 1000), (''offset'', JNum 0)]) # rest)
   \<and> fresh sample_env loaded_world
         (cacheKey ''/pokemon'' (Some [(''limit'', JNum 1000), (''offset'', JNum 0)])) DEFAULT_TTL
   \<and> fst (fetchPokemonList sample_env None None loaded_world) = Inr sample_index
   \<and> netlog (snd (fetchPokemonList sample_env None None loaded_world)) = netlog loaded_world
   \<and> loadList sample_env [mapToSummary sample_pikachu] None None loaded_store loaded_world
        = ([], loaded_world)"
proof -
  let ?key = "cacheKey ''/pokemon'' (Some [(''limit'', JNum 1000), (''offset'', JNum 0)])"
  let ?req = "(''/pokemon'', Some [(''limit'', JNum 1000), (''offset'', JNum (0::int))])"
  have p0: "listParams visited_store = \<lparr>lp_limit = 5, lp_offset = 7\<rparr>"
    by (simp add: visited_store_def)
  have h2: "\<not> fresh sample_env empty_world ?key DEFAULT_TTL"
    by (simp add: fresh_def empty_world_def)
  have log0: "netlog empty_world = []"
    by (simp add: empty_world_def)
  note inst = loadList_defaults [of sample_env "[]" visited_store empty_world]
  from inst have c1:
    "listParams (final_store visited_store (fst (loadList sample_env [] None None visited_store empty_world)))
        = \<lparr>lp_limit = 1000, lp_offset = 0\<rparr>"
    by blast
  from inst h2 obtain rest where
    "netlog (snd (loadList sample_env [] None None visited_store empty_world))
       = netlog empty_world @ ?req # rest"
    by blast
  then have c2: "\<exists>rest. netlog (snd (loadList sample_env [] None None visited_store empty_world))
         = ?req # rest"
    by (simp only: log0 append_Nil) blast
  have h3: "fresh sample_env loaded_world ?key DEFAULT_TTL"
    using index_key_differs [of "list_params 1000 0" "''pikachu''"]
    by (simp add: fresh_def loaded_run sample_env_def DEFAULT_TTL_def list_params_def
          pokemon_url_def show_name_or_id_def)
  note hit = loadList_defaults [of sample_env "[]" visited_store loaded_world]
  from hit h3 obtain entry where entry: "cache loaded_world ?key = Some entry"
    "fst (fetchPokemonList sample_env None None loaded_world) = as_list sample_env (Inr (data entry))"
    "netlog (snd (fetchPokemonList sample_env None None loaded_world)) = netlog loaded_world"
    by blast
  from entry(1) have "data entry = ListPayload sample_index"
    using index_key_differs [of "list_params 1000 0" "''pikachu''"]
    by (auto simp: loaded_run list_params_def pokemon_url_def show_name_or_id_def)
  with entry(2) have c3: "fst (fetchPokemonList sample_env None None loaded_world) = Inr sample_index"
    by (simp add: as_list_def)
  from loadList_defaults [of sample_env "[mapToSummary sample_pikachu]" loaded_store loaded_world]
  have c4: "loadList sample_env [mapToSummary sample_pikachu] None None loaded_store loaded_world
        = ([], loaded_world)"
    by blast
  from p0 h2 c1 c2 h3 c3 entry(3) c4 show ?thesis by blast
qed

text \<open>
  The claim as stated fails when the guard stops the call. After a successful
  \<^verbatim>\<open>loadList(5, 7)\<close> the list is not empty and the list-parameters slot holds
  \<open>{limit: 5, offset: 7}\<close>; a following call with the arguments omitted,
  through the callback of the render that shows this list, returns at once:
  nothing is requested, and the slot still holds \<open>{limit: 5, offset: 7}\<close>.
\<close>

theorem loadList_defaults_guarded:
  "list paged_store = [mapToSummary sample_pikachu]
   \<and> listParams paged_store = \<lparr>lp_limit = 5, lp_offset = 7\<rparr>
   \<and> loadList sample_env (list paged_store) None None paged_store paged_world = ([], paged_world)
   \<and> listParams (final_store paged_store
        (fst (loadList sample_env (list paged_store) None None paged_store paged_world)))
       = \<lparr>lp_limit = 5, lp_offset = 7\<rparr>
   \<and> netlog (snd (loadList sample_env (list paged_store) None None paged_store paged_world))
       = netlog paged_world"
proof -
  have l: "list paged_store = [mapToSummary sample_pikachu]"
    by (simp add: paged_run)
  have p: "listParams paged_store = \<lparr>lp_limit = 5, lp_offset = 7\<rparr>"
    by (simp add: paged_run)
  have g: "loadList sample_env (list paged_store) None None paged_store paged_world = ([], paged_world)"
    by (rule loadList_guard) (simp add: l)
  from l p g show ?thesis
    by (simp add: final_store_def)
qed

subsection \<open>Detail implies summary\<close>

text \<open>
  Claim C4. Whenever \<open>getDetail\<close> succeeds with a detail, then in the store
  after the call the detail map holds that detail under its id, and the summary
  map holds under the same id a summary with the same id, name, sprite and
  types.
\<close>

theorem getDetail_detail_implies_summary:
  fixes e :: "payload env" and s :: store and w :: "payload world" and idOrName :: name_or_id
  defines "s' \<equiv> final_store s (fst (snd (getDetail e idOrName s w)))"
  assumes "fst (getDetail e idOrName s w) = Inr detail"
  shows
  "detailsById s' (sum_id detail) = Some detail
   \<and> (\<exists>summary. summariesById s' (sum_id detail) = Some summary
         \<and> sum_id summary = sum_id detail
         \<and> sum_name summary = sum_name detail
         \<and> sum_sprite summary = sum_sprite detail
         \<and> sum_types summary = sum_types detail)"
proof (cases "fetchPokemonDetail e idOrName w")
  case (Pair r w1)
  with assms(2) have r: "r = Inr detail"
    by (cases r) (simp_all add: getDetail_def Let_def)
  with Pair have run: "getDetail e idOrName s w =
     (Inr detail,
      [s\<lparr>detailsById := (detailsById s)(sum_id detail \<mapsto> detail)\<rparr>,
       s\<lparr>detailsById := (detailsById s)(sum_id detail \<mapsto> detail),
         summariesById := (summariesById s)(sum_id detail \<mapsto> PokemonSummary.truncate detail)\<rparr>],
      w1)"
    by (simp add: getDetail_def Let_def)
  show ?thesis
    unfolding s'_def run
    by (simp add: final_store_def PokemonSummary.truncate_def)
qed

lemma sample_detail:
  "fst (fetchPokemonDetail sample_env (Id 25) empty_world)
     = Inr (mapToDetail sample_pikachu sample_species)"
  by (simp add: fetchPokemonDetail_def getCached_start_def getCached_finish_def Let_def
        settle_order_def promise_all_def
        as_pokemon_def as_species_def sample_env_def sample_net_def empty_world_def
        pokemon_url_def species_url_def show_name_or_id_def string_of_int_def
        digits_of_nat.simps digit_char_def)

theorem getDetail_detail_implies_summary_witness:
  "fst (getDetail sample_env (Id 25) initial_store empty_world)
     = Inr (mapToDetail sample_pikachu sample_species)
   \<and> sum_id (mapToDetail sample_pikachu sample_species) = 25
   \<and> detailsById
        (final_store initial_store (fst (snd (getDetail sample_env (Id 25) initial_store empty_world))))
        25 = Some (mapToDetail sample_pikachu sample_species)
   \<and> (\<exists>summary.
         summariesById
           (final_store initial_store (fst (snd (getDetail sample_env (Id 25) initial_store empty_world))))
           25 = Some summary
         \<and> sum_id summary = 25
         \<and> sum_name summary = ''pikachu''
         \<and> sum_sprite summary = Some ''x.png''
         \<and> sum_types summary = [''electric''])"
proof -
  let ?d = "mapToDetail sample_pikachu sample_species"
  have h: "fst (getDetail sample_env (Id 25) initial_store empty_world) = Inr ?d"
    using sample_detail
    by (cases "fetchPokemonDetail sample_env (Id 25) empty_world") (simp add: getDetail_def Let_def)
  have fields: "sum_id ?d = 25 \<and> sum_name ?d = ''pikachu'' \<and> sum_sprite ?d = Some ''x.png''
      \<and> sum_types ?d = [''electric'']"
    by (simp add: mapToDetail_def mapToSummary_def PokemonSummary.extend_def sample_pikachu_def
          pikachu_def sprites_of_def extractSprite_def nullish_def mapTypes_def type_slot_def
          named_def)
  from getDetail_detail_implies_summary [OF h] h fields show ?thesis
    by simp
qed

subsection \<open>The guard of a list load\<close>

lemma loadList_runs:
  "fst (loadList e [] limit_arg offset_arg s w) \<noteq> []
   \<and> isListLoading (hd (fst (loadList e [] limit_arg offset_arg s w)))"
  by (simp add: loadList_def Let_def split: prod.splits sum.splits)

text \<open>
  Claim C5, as amended. The guard of \<open>loadList\<close> tests the list that its
  callback captured. Whenever that list is not empty, the call returns at once:
  it sets no state, sends no request and leaves the cache and the store as they
  are. The callback of the latest render has captured a list as long as the
  store's current list, so through it the same holds whenever the current list
  is not empty. Of two calls in sequence that start from an empty list, the
  first leaves a list that is not empty exactly when its fetches succeed and
  yield at least one summary; then the second call, made through the
  callback of the render that shows the loaded list, with whatever arguments,
  is such a no-op: the store it leaves is the store the first call left, and
  the request log is the one the first call left.
\<close>

theorem loadList_guard_noop:
  fixes e :: "payload env" and s :: store and w :: "payload world"
    and captured captured' :: "PokemonSummary list"
    and limit_arg offset_arg limit_arg' offset_arg' :: "int option"
  defines "s1 \<equiv> final_store s (fst (loadList e captured limit_arg offset_arg s w))"
    and "w1 \<equiv> snd (loadList e captured limit_arg offset_arg s w)"
  shows
  "(captured \<noteq> [] \<longrightarrow>
      loadList e captured limit_arg offset_arg s w = ([], w) \<and> s1 = s \<and> w1 = w)
   \<and> (length captured = length (list s) \<and> list s \<noteq> [] \<longrightarrow>
      loadList e captured limit_arg offset_arg s w = ([], w) \<and> s1 = s \<and> w1 = w)
   \<and> (captured = [] \<and> list s = [] \<longrightarrow>
        (list s1 \<noteq> [] \<longleftrightarrow>
           (\<exists>response summaries.
               fst (loadList_fetch e (arg_limit limit_arg) (arg_offset offset_arg) w)
                 = Inr (response, summaries)
               \<and> summaries \<noteq> [])))
   \<and> (captured = [] \<and> list s = [] \<and> list s1 \<noteq> [] \<and> length captured' = length (list s1) \<longrightarrow>
        loadList e captured' limit_arg' offset_arg' s1 w1 = ([], w1)
        \<and> final_store s1 (fst (loadList e captured' limit_arg' offset_arg' s1 w1)) = s1
        \<and> netlog (snd (loadList e captured' limit_arg' offset_arg' s1 w1)) = netlog w1)"
proof -
  have a: "loadList e captured limit_arg offset_arg s w = ([], w) \<and> s1 = s \<and> w1 = w"
    if "captured \<noteq> []"
    using loadList_guard [OF that, of e limit_arg offset_arg s w]
    by (simp add: s1_def w1_def final_store_def)
  have a': "captured \<noteq> []" if "length captured = length (list s)" "list s \<noteq> []"
    using that by auto
  have b: "list s1 \<noteq> [] \<longleftrightarrow>
           (\<exists>response summaries.
               fst (loadList_fetch e (arg_limit limit_arg) (arg_offset offset_arg) w)
                 = Inr (response, summaries)
               \<and> summaries \<noteq> [])" if c: "captured = []" and empty: "list s = []"
  proof (cases "loadList_fetch e (arg_limit limit_arg) (arg_offset offset_arg) w")
    case (Pair r w')
    show ?thesis
    proof (cases r)
      case (Inl err)
      with Pair loadList_failed [of e limit_arg offset_arg w err w' s] empty
      show ?thesis by (simp add: s1_def c final_store_def)
    next
      case (Inr loaded)
      obtain response summaries where l: "loaded = (response, summaries)"
        by (cases loaded)
      with Pair Inr loadList_loaded [of e limit_arg offset_arg w response summaries w' s]
      show ?thesis by (simp add: s1_def c)
    qed
  qed
  have c: "loadList e captured' limit_arg' offset_arg' s1 w1 = ([], w1)
        \<and> final_store s1 (fst (loadList e captured' limit_arg' offset_arg' s1 w1)) = s1
        \<and> netlog (snd (loadList e captured' limit_arg' offset_arg' s1 w1)) = netlog w1"
    if "list s1 \<noteq> []" "length captured' = length (list s1)"
  proof -
    from that have "captured' \<noteq> []" by auto
    from loadList_guard [OF this, of e limit_arg' offset_arg' s1 w1] show ?thesis
      by (simp add: final_store_def)
  qed
  from a a' b c show ?thesis by blast
qed

theorem loadList_guard_noop_witness:
  "list initial_store = []
   \<and> list loaded_store = [mapToSummary sample_pikachu]
   \<and> netlog loaded_world
        = [(''/pokemon'', Some (list_params 1000 0)), (''/pokemon/pikachu'', None)]
   \<and> loadList sample_env (list loaded_store) None None loaded_store loaded_world
      = ([], loaded_world)
   \<and> loadList sample_env [mapToSummary sample_pikachu] (Some 5) (Some 7) paged_store paged_world
      = ([], paged_world)"
proof -
  have h2: "list loaded_store = [mapToSummary sample_pikachu]"
    by (simp add: loaded_run)
  have h3: "list (final_store initial_store
      (fst (loadList sample_env [] None None initial_store empty_world))) \<noteq> []"
    using h2 by (simp add: loaded_store_def initial_list)
  have h4: "length (list loaded_store)
      = length (list (final_store initial_store
          (fst (loadList sample_env [] None None initial_store empty_world))))"
    by (simp add: loaded_store_def initial_list)
  from loadList_guard_noop [where captured = "[]" and s = initial_store and e = sample_env
      and limit_arg = None and offset_arg = None and w = empty_world
      and captured' = "list loaded_store" and limit_arg' = None and offset_arg' = None]
    initial_list h3 h4
  have c1: "loadList sample_env (list loaded_store) None None loaded_store loaded_world
      = ([], loaded_world)"
    unfolding loaded_store_def loaded_world_def initial_list by blast
  have "length [mapToSummary sample_pikachu] = length (list paged_store) \<and> list paged_store \<noteq> []"
    by (simp add: paged_run)
  with loadList_guard_noop [where captured = "[mapToSummary sample_pikachu]" and s = paged_store
      and e = sample_env and limit_arg = "Some 5" and offset_arg = "Some 7" and w = paged_world]
  have c2: "loadList sample_env [mapToSummary sample_pikachu] (Some 5) (Some 7) paged_store paged_world
      = ([], paged_world)"
    by blast
  have log: "netlog loaded_world
        = [(''/pokemon'', Some (list_params 1000 0)), (''/pokemon/pikachu'', None)]"
    by (simp add: loaded_run)
  from initial_list h2 log c1 c2 show ?thesis by blast
qed

text \<open>
  The claim as stated fails for two calls in sequence from an empty list when
  the first call fails: the list is still empty, the guard does not fire, and
  the second call sends the index request again and sets state again.
\<close>

theorem loadList_retry_after_failure:
  "list initial_store = []
   \<and> netlog failed_world = [(''/pokemon'', Some (list_params 1000 0))]
   \<and> list failed_store = []
   \<and> netlog (snd (loadList offline_env (list failed_store) None None failed_store failed_world))
       = [(''/pokemon'', Some (list_params 1000 0)), (''/pokemon'', Some (list_params 1000 0))]
   \<and> fst (loadList offline_env (list failed_store) None None failed_store failed_world) \<noteq> []"
proof -
  let ?req = "(''/pokemon'', Some (list_params 1000 0))"
  have l1: "netlog failed_world = [?req]"
    by (simp add: failed_run)
  have s1: "list failed_store = []"
    by (simp add: failed_run initial_list)
  have f2: "loadList_fetch offline_env (arg_limit None) (arg_offset None) failed_world
      = (Inl (ErrorObj ''Network Error''), failed_world\<lparr>netlog := netlog failed_world @ [?req]\<rparr>)"
    unfolding arg_limit_def arg_offset_def option.case
    by (rule offline_fetch) (simp add: failed_run)
  note run2 = loadList_failed [OF f2, of failed_store]
  have l2: "netlog (snd (loadList offline_env (list failed_store) None None failed_store failed_world))
      = [?req, ?req]"
    unfolding s1 run2 by (simp add: l1)
  have t2: "fst (loadList offline_env (list failed_store) None None failed_store failed_world) \<noteq> []"
    unfolding s1 run2 by simp
  from initial_list l1 s1 l2 t2 show ?thesis by blast
qed

text \<open>
  The guard reads the captured list, not the store. A caller that kept the
  callback of the first render, which captured the empty list, and calls it
  when the list is loaded, is not stopped: the call sets the loading flag and
  goes on to fetch.
\<close>

lemma loadList_stale_callback:
  "list loaded_store \<noteq> []
   \<and> fst (loadList sample_env (list initial_store) None None loaded_store loaded_world) \<noteq> []
   \<and> isListLoading (hd (fst (loadList sample_env (list initial_store) None None
        loaded_store loaded_world)))"
  using loadList_runs [of sample_env None None loaded_store loaded_world]
  by (simp add: loaded_run initial_list)

end
